theory Spec2Isabelle
  imports Complex_Main "HOL-Library.Sublist" "HOL-Library.Multiset"
begin

section \<open>Data model (src/src/store/useAppStore.ts, lines 6-59)\<close>

text \<open>
  Identifiers are the store's uuids, kept as strings.  A timestamp is the number
  \<open>new Date(t).getTime()\<close> reads from the ISO string the store returns, an integer.
  The \<open>User\<close> object of the authentication library is reduced to its \<open>id\<close>, the
  only field the store module reads.  The optional \<open>metadata\<close> of a message, which
  the module never reads or writes, is left out; the entries of \<open>issues\<close> are kept as
  strings.  A \<open>health_score\<close> is \<open>None\<close> when the store holds \<open>null\<close> for it, which
  is what a written NaN becomes.
\<close>

type_synonym uuid = string
type_synonym timestamp = int

datatype message_type = UserMsg | AiMsg | SystemMsg

datatype lang = Python | JavaScript

datatype participant_role = Owner | Developer | Designer | Qa | Viewer

record message =
  msg_id :: uuid
  msg_session_id :: uuid
  msg_user_id :: uuid
  msg_content :: string
  msg_type :: message_type
  msg_created_at :: timestamp

record code_file =
  file_id :: uuid
  file_session_id :: uuid
  filename :: string
  file_content :: string
  file_language :: lang
  file_created_at :: timestamp
  file_updated_at :: timestamp
  health_score :: "real option"
  issues :: "string list"

record session =
  sess_id :: uuid
  sess_name :: string
  description :: string
  owner_id :: uuid
  sess_created_at :: timestamp
  sess_updated_at :: timestamp
  is_public :: bool
  language :: lang

record session_participant =
  part_id :: uuid
  part_session_id :: uuid
  part_user_id :: uuid
  part_role :: participant_role
  joined_at :: timestamp
  last_active :: timestamp

text \<open>The zustand store \<open>AppState\<close>: its data fields.\<close>

record app_state =
  user :: "uuid option"
  currentSession :: "session option"
  sessions :: "session list"
  messages :: "message list"
  codeFiles :: "code_file list"
  sessionParticipants :: "session_participant list"
  isLoading :: bool
  error :: "string option"
  darkMode :: bool
  voiceInput :: bool
  sidebarCollapsed :: bool

section \<open>The backing store and the client's surroundings\<close>

text \<open>
  The four tables of the schema migration, as row lists in insertion order.  The
  store's row-level authorization is not part of the model: a query the store
  refuses is one of the failures of \<open>env\<close> below.
\<close>

record database =
  tbl_sessions :: "session list"
  tbl_messages :: "message list"
  tbl_code_files :: "code_file list"
  tbl_session_participants :: "session_participant list"

text \<open>
  A realtime channel as \<open>setupRealtimeSubscriptions\<close> opens it: the session
  identifier of its filter, and for the message channel the \<open>user.id\<close> its
  callback closes over.
\<close>

datatype channel =
    MessagesChannel uuid uuid
  | FilesChannel uuid
  | FileUpdatesChannel uuid

datatype toast = ToastError string | ToastSuccess string

text \<open>
  Everything one client touches: the zustand state, the store, the array kept in
  \<open>window.supabaseSubscriptions\<close> (\<open>None\<close> while it is undefined), the channels
  registered with the realtime client, and the toasts shown so far.
\<close>

record world =
  app :: app_state
  db :: database
  window_subs :: "channel list option"
  live :: "channel list"
  toasts :: "toast list"

section \<open>Values of the language\<close>

text \<open>
  A non-negative double, as the pair of integers \<open>mantissa\<close> and \<open>exponent\<close> with
  the value \<open>mantissa * 2 ^ exponent\<close>; a double has 53 significant bits, so its
  mantissa is below \<open>2 ^ 53\<close>.
\<close>

record double =
  mantissa :: int
  exponent :: int

text \<open>
  The value of \<open>analysis.healthScore\<close> after \<open>JSON.parse\<close>.  \<open>Number\<close> is a JSON
  number; \<open>Object\<close> stands for arrays and objects.
\<close>

datatype js_value = Undefined | Null | Boolean bool | Number real | String string | Object

text \<open>
  What the analysis request of the edge function comes to, once its \<open>fetch\<close> has
  answered: a response that is not \<open>ok\<close>, an exception inside the \<open>try\<close> before
  \<open>healthScore\<close> is assigned (a body that is no JSON, a reply without choices, a
  content \<open>JSON.parse\<close> rejects or parses to \<open>null\<close>), or a parsed analysis with
  its \<open>healthScore\<close> property.
\<close>

datatype analysis_outcome = ResponseNotOk | AnalysisThrew | Analysis js_value

text \<open>A step that either throws an error with a message or gives a value.\<close>

datatype 'a attempt = Throws string | Returns 'a

text \<open>
  The third request of the edge function, for the chat reply: its \<open>fetch\<close> or the
  reading of its body throws, or the response is not \<open>ok\<close>, or it is \<open>ok\<close> with
  the content of the first choice, if any.
\<close>

datatype reply = ReplyThrows string | ReplyNotOk | ReplyOk "string option"

section \<open>The surroundings of a call\<close>

text \<open>
  What the edge function \<open>generate-code\<close> meets while it runs: whether
  \<open>GROQ_API_KEY\<close> is configured, the user the bearer token stands for, the
  generated code (or the error of the first request), the analysis, the
  language's conversion of a string or object to a number (\<open>None\<close> for NaN),
  the issues the analysis lists, \<open>Date.now()\<close>, the store's answer to the
  insert into \<open>code_files\<close>, the chat reply, whether the insert into \<open>messages\<close>
  is refused, and the store's defaults for the two rows.
\<close>

record edge_env =
  groq_api_key :: bool
  token_user :: "uuid option"
  generated_code :: "string attempt"
  analysis_response :: "analysis_outcome attempt"
  to_number_builtin :: "js_value \<Rightarrow> real option"
  analysis_issues :: "string list"
  date_now :: int
  edge_insert_error :: "string option"
  chat_completion :: reply
  edge_message_refused :: bool
  edge_file_id :: uuid
  edge_message_id :: uuid
  edge_now :: timestamp

text \<open>What \<open>supabase.functions.invoke('generate-code')\<close> hands back.\<close>

datatype invoke_result =
    InvokeError string
  | InvokeNoData
  | InvokeSuccess string
  | InvokeFailure "string option"

text \<open>
  What the surroundings decide during one call of a store action: for each query
  or write whether the store answers with an error (and its \<open>message\<close>), the
  identifiers and the clock value the store gives to new rows, the value of
  \<open>Math.random()\<close>, the language's \<open>String.prototype.toLowerCase\<close>, whether an
  authentication session exists, whether the edge function \<open>generate-code\<close>
  cannot be reached (and the error then), the message of the client library's
  error for an answer that is not 2xx, what that edge function meets, and the
  reply the edge function \<open>chat-response\<close> stores, if any.
\<close>

record env =
  owned_error :: "string option"
  participant_sessions_error :: "string option"
  session_fetch_error :: "string option"
  participant_check_error :: "string option"
  upsert_error :: "string option"
  messages_error :: "string option"
  files_error :: "string option"
  participants_error :: "string option"
  message_insert_error :: "string option"
  file_insert_error :: "string option"
  session_insert_error :: "string option"
  owner_insert_error :: "string option"
  file_update_error :: "string option"
  new_id :: uuid
  new_file_id :: uuid
  new_session_id :: uuid
  reply_id :: uuid
  now :: timestamp
  math_random :: double
  toLowerCase :: "string \<Rightarrow> string"
  auth_session :: bool
  function_unreachable :: "string option"
  non_2xx_message :: string
  edge :: edge_env
  chat_reply :: "string option"

definition toast_error :: "string \<Rightarrow> world \<Rightarrow> world" where
  "toast_error msg w = w\<lparr>toasts := toasts w @ [ToastError msg]\<rparr>"

definition toast_success :: "string \<Rightarrow> world \<Rightarrow> world" where
  "toast_success msg w = w\<lparr>toasts := toasts w @ [ToastSuccess msg]\<rparr>"

text \<open>\<open>.single()\<close>: the row when exactly one matches, otherwise no data.\<close>

definition single_row :: "'a list \<Rightarrow> 'a option" where
  "single_row rows = (case rows of [r] \<Rightarrow> Some r | _ \<Rightarrow> None)"

section \<open>loadSessions (lines 111-159)\<close>

text \<open>
  The first query: \<open>.eq('owner_id', user.id).order('updated_at', {ascending: false})\<close>.
  Every row it asks for is the user's own, which the select policy lets through.
\<close>

definition owned_sessions :: "database \<Rightarrow> uuid \<Rightarrow> session list" where
  "owned_sessions d uid =
     sort_key (\<lambda>s. - sess_updated_at s) (filter (\<lambda>s. owner_id s = uid) (tbl_sessions d))"

text \<open>
  The select policy of the schema on \<open>sessions\<close>, "Users can view their own
  sessions and public sessions": \<open>USING (owner_id = auth.uid() OR is_public = true)\<close>.
\<close>

definition sessions_select_policy :: "uuid \<Rightarrow> session \<Rightarrow> bool" where
  "sessions_select_policy uid s \<longleftrightarrow> owner_id s = uid \<or> is_public s"

text \<open>
  The second query: the user's participant rows (which the policies on
  \<open>session_participants\<close> let the user read), each with its embedded \<open>sessions\<close>
  object: the session of the row when the select policy on \<open>sessions\<close> lets the
  user read it, and \<open>null\<close> otherwise.
\<close>

definition participant_sessions :: "database \<Rightarrow> uuid \<Rightarrow> session option list" where
  "participant_sessions d uid =
     map (\<lambda>p. find (\<lambda>s. sess_id s = part_session_id p \<and> sessions_select_policy uid s)
               (tbl_sessions d))
       (filter (\<lambda>p. part_user_id p = uid) (tbl_session_participants d))"

text \<open>The \<open>forEach\<close> that pushes the participant sessions not yet in \<open>allSessions\<close>.\<close>

fun combine :: "session list \<Rightarrow> session option list \<Rightarrow> session list" where
  "combine allSessions [] = allSessions"
| "combine allSessions (None # ps) = combine allSessions ps"
| "combine allSessions (Some s # ps) =
     (if find (\<lambda>a. sess_id a = sess_id s) allSessions = None
      then combine (allSessions @ [s]) ps
      else combine allSessions ps)"

text \<open>
  \<open>allSessions.sort((a, b) => time b - time a)\<close>: a stable sort, newest first.
\<close>

definition sort_by_updated :: "session list \<Rightarrow> session list" where
  "sort_by_updated xs = sort_key (\<lambda>s. - sess_updated_at s) xs"

definition load_failed :: "string \<Rightarrow> world \<Rightarrow> world" where
  "load_failed msg w =
     toast_error ''Failed to load sessions''
       (w\<lparr>app := (app w)\<lparr>error := Some msg, isLoading := False\<rparr>\<rparr>)"

definition loadSessions :: "env \<Rightarrow> world \<Rightarrow> world" where
  "loadSessions e w =
     (case user (app w) of
        None \<Rightarrow> w
      | Some uid \<Rightarrow>
          let w1 = w\<lparr>app := (app w)\<lparr>isLoading := True, error := None\<rparr>\<rparr> in
          (case owned_error e of
             Some msg \<Rightarrow> load_failed msg w1
           | None \<Rightarrow>
               (case participant_sessions_error e of
                  Some msg \<Rightarrow> load_failed msg w1
                | None \<Rightarrow>
                    let allSessions =
                          combine (owned_sessions (db w1) uid) (participant_sessions (db w1) uid)
                    in w1\<lparr>app := (app w1)\<lparr>sessions := sort_by_updated allSessions,
                                             isLoading := False\<rparr>\<rparr>)))"

section \<open>createSession (lines 161-212)\<close>

text \<open>
  The session is inserted with \<open>is_public: false\<close>; the owner's participant row is
  inserted next, and its failure is only logged.  The returned session (or
  \<open>null\<close>) is not part of the state and is left out.
\<close>

definition createSession :: "env \<Rightarrow> string \<Rightarrow> string \<Rightarrow> lang \<Rightarrow> world \<Rightarrow> world" where
  "createSession e name descr lng w =
     (case user (app w) of
        None \<Rightarrow> toast_error ''You must be logged in to create a session'' w
      | Some uid \<Rightarrow>
          let w1 = w\<lparr>app := (app w)\<lparr>isLoading := True, error := None\<rparr>\<rparr> in
          (case session_insert_error e of
             Some msg \<Rightarrow>
               toast_error ''Failed to create session''
                 (w1\<lparr>app := (app w1)\<lparr>error := Some msg, isLoading := False\<rparr>\<rparr>)
           | None \<Rightarrow>
               let data = \<lparr>sess_id = new_session_id e, sess_name = name, description = descr,
                           owner_id = uid, sess_created_at = now e, sess_updated_at = now e,
                           is_public = False, language = lng\<rparr>;
                   d1 = (db w1)\<lparr>tbl_sessions := tbl_sessions (db w1) @ [data]\<rparr>;
                   d2 = (case owner_insert_error e of
                           Some msg \<Rightarrow> d1
                         | None \<Rightarrow>
                             d1\<lparr>tbl_session_participants :=
                                  tbl_session_participants d1 @
                                  [\<lparr>part_id = new_id e, part_session_id = new_session_id e,
                                    part_user_id = uid, part_role = Owner,
                                    joined_at = now e, last_active = now e\<rparr>]\<rparr>);
                   w2 = toast_success ''Session created successfully!''
                          (w1\<lparr>db := d2, app := (app w1)\<lparr>isLoading := False\<rparr>\<rparr>)
               in loadSessions e w2))"

section \<open>Subscriptions (lines 543-636)\<close>

text \<open>
  \<open>cleanupSubscriptions\<close>: when \<open>window.supabaseSubscriptions\<close> is an array, every
  channel in it is removed from the realtime client and the array is emptied;
  when it is undefined nothing happens.
\<close>

definition cleanupSubscriptions :: "world \<Rightarrow> world" where
  "cleanupSubscriptions w =
     (case window_subs w of
        None \<Rightarrow> w
      | Some subscriptions \<Rightarrow>
          w\<lparr>live := fold remove1 subscriptions (live w), window_subs := Some []\<rparr>)"

text \<open>
  \<open>setupRealtimeSubscriptions\<close>: with an active session and a user, clean up, then
  open the three channels filtered to \<open>currentSession.id\<close> and store them.
\<close>

definition setupRealtimeSubscriptions :: "world \<Rightarrow> world" where
  "setupRealtimeSubscriptions w =
     (case currentSession (app w) of
        None \<Rightarrow> w
      | Some s \<Rightarrow>
          (case user (app w) of
             None \<Rightarrow> w
           | Some uid \<Rightarrow>
               let w1 = cleanupSubscriptions w;
                   subscriptions =
                     [MessagesChannel (sess_id s) uid, FilesChannel (sess_id s),
                      FileUpdatesChannel (sess_id s)]
               in w1\<lparr>live := live w1 @ subscriptions, window_subs := Some subscriptions\<rparr>))"

text \<open>The three callbacks.\<close>

definition on_new_message :: "uuid \<Rightarrow> message \<Rightarrow> app_state \<Rightarrow> app_state" where
  "on_new_message uid newMessage a =
     (if msg_user_id newMessage \<noteq> uid
      then a\<lparr>messages := messages a @ [newMessage]\<rparr>
      else a)"

definition on_new_file :: "code_file \<Rightarrow> app_state \<Rightarrow> app_state" where
  "on_new_file newFile a =
     (if find (\<lambda>f. file_id f = file_id newFile) (codeFiles a) = None
      then a\<lparr>codeFiles := newFile # codeFiles a\<rparr>
      else a)"

definition on_file_update :: "code_file \<Rightarrow> app_state \<Rightarrow> app_state" where
  "on_file_update updatedFile a =
     a\<lparr>codeFiles :=
         map (\<lambda>file. if file_id file = file_id updatedFile then updatedFile else file)
           (codeFiles a)\<rparr>"

text \<open>
  A change notification of the store, and its delivery: a channel passes on the
  events of its table and kind whose \<open>session_id\<close> equals the channel's filter.
\<close>

datatype event = MessageInserted message | FileInserted code_file | FileUpdated code_file

fun event_session :: "event \<Rightarrow> uuid" where
  "event_session (MessageInserted m) = msg_session_id m"
| "event_session (FileInserted f) = file_session_id f"
| "event_session (FileUpdated f) = file_session_id f"

fun channel_session :: "channel \<Rightarrow> uuid" where
  "channel_session (MessagesChannel sid uid) = sid"
| "channel_session (FilesChannel sid) = sid"
| "channel_session (FileUpdatesChannel sid) = sid"

fun deliver :: "channel \<Rightarrow> event \<Rightarrow> app_state \<Rightarrow> app_state" where
  "deliver (MessagesChannel sid uid) (MessageInserted m) a =
     (if msg_session_id m = sid then on_new_message uid m a else a)"
| "deliver (FilesChannel sid) (FileInserted f) a =
     (if file_session_id f = sid then on_new_file f a else a)"
| "deliver (FileUpdatesChannel sid) (FileUpdated f) a =
     (if file_session_id f = sid then on_file_update f a else a)"
| "deliver c ev a = a"

definition notify :: "event \<Rightarrow> world \<Rightarrow> world" where
  "notify ev w = w\<lparr>app := fold (\<lambda>c. deliver c ev) (live w) (app w)\<rparr>"

section \<open>joinSession (lines 214-330)\<close>

text \<open>
  The session fetch \<open>.eq('id', sessionId).single()\<close>: the data, and whether
  \<open>sessionError\<close> is set.  A fetch the store refuses, as for a row its select
  policy hides, is a fetch with \<open>session_fetch_error\<close>.
\<close>

definition fetch_session :: "env \<Rightarrow> database \<Rightarrow> uuid \<Rightarrow> session option \<times> bool" where
  "fetch_session e d sessionId =
     (case session_fetch_error e of
        Some msg \<Rightarrow> (None, True)
      | None \<Rightarrow>
          (case single_row (filter (\<lambda>s. sess_id s = sessionId) (tbl_sessions d)) of
             None \<Rightarrow> (None, True)
           | Some s \<Rightarrow> (Some s, False)))"

text \<open>
  The participant check \<open>.select('id').eq(session_id).eq(user_id).single()\<close>: only
  its data is read.
\<close>

definition participant_check :: "env \<Rightarrow> database \<Rightarrow> uuid \<Rightarrow> uuid \<Rightarrow> uuid option" where
  "participant_check e d sessionId uid =
     (case participant_check_error e of
        Some msg \<Rightarrow> None
      | None \<Rightarrow>
          map_option part_id
            (single_row
               (filter (\<lambda>p. part_session_id p = sessionId \<and> part_user_id p = uid)
                  (tbl_session_participants d))))"

text \<open>
  The upsert with \<open>onConflict: 'session_id,user_id'\<close>: a row of the pair takes the
  written role; without one a row is inserted, with the store's defaults for
  \<open>id\<close>, \<open>joined_at\<close> and \<open>last_active\<close>.  A failed upsert writes nothing.
\<close>

definition upsert_participant :: "env \<Rightarrow> uuid \<Rightarrow> uuid \<Rightarrow> database \<Rightarrow> database" where
  "upsert_participant e sessionId uid d =
     (case upsert_error e of
        Some msg \<Rightarrow> d
      | None \<Rightarrow>
          if filter (\<lambda>p. part_session_id p = sessionId \<and> part_user_id p = uid)
               (tbl_session_participants d) \<noteq> []
          then d\<lparr>tbl_session_participants :=
                   map (\<lambda>p. if part_session_id p = sessionId \<and> part_user_id p = uid
                            then p\<lparr>part_role := Developer\<rparr> else p)
                     (tbl_session_participants d)\<rparr>
          else d\<lparr>tbl_session_participants :=
                   tbl_session_participants d @
                   [\<lparr>part_id = new_id e, part_session_id = sessionId, part_user_id = uid,
                     part_role = Developer, joined_at = now e, last_active = now e\<rparr>]\<rparr>)"

text \<open>The three loads; a failed load is replaced by the empty list.\<close>

definition load_messages :: "env \<Rightarrow> database \<Rightarrow> uuid \<Rightarrow> message list" where
  "load_messages e d sessionId =
     (case messages_error e of
        Some msg \<Rightarrow> []
      | None \<Rightarrow>
          sort_key msg_created_at (filter (\<lambda>m. msg_session_id m = sessionId) (tbl_messages d)))"

definition load_code_files :: "env \<Rightarrow> database \<Rightarrow> uuid \<Rightarrow> code_file list" where
  "load_code_files e d sessionId =
     (case files_error e of
        Some msg \<Rightarrow> []
      | None \<Rightarrow>
          sort_key (\<lambda>f. - file_updated_at f)
            (filter (\<lambda>f. file_session_id f = sessionId) (tbl_code_files d)))"

definition load_participants :: "env \<Rightarrow> database \<Rightarrow> uuid \<Rightarrow> session_participant list" where
  "load_participants e d sessionId =
     (case participants_error e of
        Some msg \<Rightarrow> []
      | None \<Rightarrow> filter (\<lambda>p. part_session_id p = sessionId) (tbl_session_participants d))"

text \<open>The \<open>catch\<close> of \<open>joinSession\<close>.\<close>

definition join_failed :: "string \<Rightarrow> world \<Rightarrow> world" where
  "join_failed msg w =
     toast_error (if msg = [] then ''Failed to join session'' else msg)
       (w\<lparr>app := (app w)\<lparr>error := Some msg, isLoading := False\<rparr>\<rparr>)"

text \<open>
  The synchronous end of a join (lines 309-324): the old channels are cleaned
  up, the loaded state is installed, the new channels are opened.
\<close>

definition finish_join ::
  "session \<Rightarrow> message list \<Rightarrow> code_file list \<Rightarrow> session_participant list \<Rightarrow> world \<Rightarrow> world"
  where
  "finish_join s msgs files participants w =
     (let w3 = cleanupSubscriptions w;
          w4 = w3\<lparr>app := (app w3)\<lparr>currentSession := Some s, messages := msgs,
                                    codeFiles := files,
                                    sessionParticipants := participants,
                                    isLoading := False, error := None\<rparr>\<rparr>;
          w5 = setupRealtimeSubscriptions w4
      in toast_success (''Joined session: '' @ sess_name s) w5)"

definition joinSession :: "env \<Rightarrow> uuid \<Rightarrow> world \<Rightarrow> world" where
  "joinSession e sessionId w =
     (case user (app w) of
        None \<Rightarrow> toast_error ''You must be logged in to join a session'' w
      | Some uid \<Rightarrow>
          let w1 = w\<lparr>app := (app w)\<lparr>isLoading := True, error := None\<rparr>\<rparr> in
          (case fetch_session e (db w1) sessionId of
             (data, True) \<Rightarrow> join_failed ''Session not found or access denied'' w1
           | (None, False) \<Rightarrow> join_failed ''Session not found'' w1
           | (Some s, False) \<Rightarrow>
               let canAccess = (owner_id s = uid \<or> is_public s) in
               if \<not> canAccess \<and> participant_check e (db w1) sessionId uid = None
               then join_failed ''You do not have access to this session'' w1
               else
                 let w2 = (if owner_id s \<noteq> uid
                           then w1\<lparr>db := upsert_participant e sessionId uid (db w1)\<rparr>
                           else w1);
                     msgs = load_messages e (db w2) sessionId;
                     files = load_code_files e (db w2) sessionId;
                     participants = load_participants e (db w2) sessionId
                 in finish_join s msgs files participants w2))"

text \<open>The SessionView of the specification: what a join installs.\<close>

definition session_view ::
  "world \<Rightarrow> session option \<times> message list \<times> code_file list \<times> session_participant list" where
  "session_view w =
     (currentSession (app w), messages (app w), codeFiles (app w), sessionParticipants (app w))"

section \<open>sendMessage (lines 332-394)\<close>

text \<open>The record the insert returns: the written fields and the store's defaults.\<close>

definition inserted_message :: "env \<Rightarrow> uuid \<Rightarrow> uuid \<Rightarrow> string \<Rightarrow> message_type \<Rightarrow> message" where
  "inserted_message e sessionId uid content type =
     \<lparr>msg_id = new_id e, msg_session_id = sessionId, msg_user_id = uid,
      msg_content = content, msg_type = type, msg_created_at = now e\<rparr>"

text \<open>
  The edge function \<open>chat-response\<close> (supabase/functions/chat-response/index.ts):
  when it gets a reply it inserts it as an \<open>ai\<close> message under the caller's
  \<open>user.id\<close>; every failure inside it writes nothing.  The client only logs its
  answer.
\<close>

definition chat_response :: "env \<Rightarrow> uuid \<Rightarrow> uuid \<Rightarrow> database \<Rightarrow> database" where
  "chat_response e sessionId uid d =
     (case chat_reply e of
        None \<Rightarrow> d
      | Some aiResponse \<Rightarrow>
          d\<lparr>tbl_messages := tbl_messages d @
               [\<lparr>msg_id = reply_id e, msg_session_id = sessionId, msg_user_id = uid,
                 msg_content = aiResponse, msg_type = AiMsg, msg_created_at = now e\<rparr>]\<rparr>)"

definition sendMessage :: "env \<Rightarrow> string \<Rightarrow> message_type \<Rightarrow> world \<Rightarrow> world" where
  "sendMessage e content type w =
     (case user (app w) of
        None \<Rightarrow> toast_error ''No active session'' w
      | Some uid \<Rightarrow>
          (case currentSession (app w) of
             None \<Rightarrow> toast_error ''No active session'' w
           | Some s \<Rightarrow>
               (case message_insert_error e of
                  Some msg \<Rightarrow>
                    toast_error ''Failed to send message''
                      (w\<lparr>app := (app w)\<lparr>error := Some msg\<rparr>\<rparr>)
                | None \<Rightarrow>
                    let data = inserted_message e (sess_id s) uid content type;
                        w1 = w\<lparr>db := (db w)\<lparr>tbl_messages := tbl_messages (db w) @ [data]\<rparr>\<rparr>;
                        w2 = (if type = UserMsg
                              then w1\<lparr>app := (app w1)\<lparr>messages := messages (app w1) @ [data]\<rparr>\<rparr>
                              else w1)
                    in if type = UserMsg \<and> auth_session e
                       then w2\<lparr>db := chat_response e (sess_id s) uid (db w2)\<rparr>
                       else w2)))"

section \<open>The fallback generator (lines 639-941)\<close>

text \<open>
  A string is the sequence of its bytes in UTF-8.  \<open>s.includes(k)\<close>: \<open>k\<close> occurs
  in \<open>s\<close> as a contiguous run; for a keyword of ASCII letters that is the same in
  bytes as in the code units of the language's strings.
\<close>

fun str_includes :: "string \<Rightarrow> string \<Rightarrow> bool" where
  "str_includes [] k = (k = [])"
| "str_includes (c # cs) k = (prefix k (c # cs) \<or> str_includes cs k)"

fun join_lines :: "string list \<Rightarrow> string" where
  "join_lines [] = []"
| "join_lines [l] = l"
| "join_lines (l # ls) = l @ CHR 0x0A # join_lines ls"

record mock_code =
  mock_filename :: string
  mock_content :: string
  mock_description :: string
  mock_issues :: "string list"

text \<open>
  The six template texts of \<open>generateMockCode\<close>, line by line.  A character is a
  byte here: the three signs of the calculator templates outside ASCII stand as
  their UTF-8 bytes.
\<close>

definition todo_js_template :: string where
  \<open>todo_js_template = join_lines
    [''// Todo App Implementation'',
     ''class TodoApp {'',
     ''  constructor() {'',
     ''    this.todos = [];'',
     ''    this.nextId = 1;'',
     ''  }'',
     '''',
     ''  addTodo(text) {'',
     ''    const todo = {'',
     ''      id: this.nextId++,'',
     ''      text,'',
     ''      completed: false,'',
     ''      createdAt: new Date()'',
     ''    };'',
     ''    this.todos.push(todo);'',
     ''    return todo;'',
     ''  }'',
     '''',
     ''  toggleTodo(id) {'',
     ''    const todo = this.todos.find(t => t.id === id);'',
     ''    if (todo) {'',
     ''      todo.completed = !todo.completed;'',
     ''    }'',
     ''    return todo;'',
     ''  }'',
     '''',
     ''  deleteTodo(id) {'',
     ''    this.todos = this.todos.filter(t => t.id !== id);'',
     ''  }'',
     '''',
     ''  getTodos() {'',
     ''    return this.todos;'',
     ''  }'',
     '''',
     ''  getCompletedTodos() {'',
     ''    return this.todos.filter(t => t.completed);'',
     ''  }'',
     '''',
     ''  getPendingTodos() {'',
     ''    return this.todos.filter(t => !t.completed);'',
     ''  }'',
     ''}'',
     '''',
     ''export default TodoApp;'']\<close>

definition todo_py_template :: string where
  \<open>todo_py_template = join_lines
    [''# Todo App Implementation'',
     ''from datetime import datetime'',
     ''from typing import List, Dict, Optional'',
     '''',
     ''class TodoApp:'',
     ''    def __init__(self):'',
     ''        self.todos: List[Dict] = []'',
     ''        self.next_id = 1'',
     ''    '',
     ''    def add_todo(self, text: str) -> Dict:'',
     ''        todo = {'',
     ''            'id': self.next_id,'',
     ''            'text': text,'',
     ''            'completed': False,'',
     ''            'created_at': datetime.now()'',
     ''        }'',
     ''        self.todos.append(todo)'',
     ''        self.next_id += 1'',
     ''        return todo'',
     ''    '',
     ''    def toggle_todo(self, todo_id: int) -> Optional[Dict]:'',
     ''        for todo in self.todos:'',
     ''            if todo['id'] == todo_id:'',
     ''                todo['completed'] = not todo['completed']'',
     ''                return todo'',
     ''        return None'',
     ''    '',
     ''    def delete_todo(self, todo_id: int) -> bool:'',
     ''        self.todos = [t for t in self.todos if t['id'] != todo_id]'',
     ''        return True'',
     ''    '',
     ''    def get_todos(self) -> List[Dict]:'',
     ''        return self.todos'',
     ''    '',
     ''    def get_completed_todos(self) -> List[Dict]:'',
     ''        return [t for t in self.todos if t['completed']]'',
     ''    '',
     ''    def get_pending_todos(self) -> List[Dict]:'',
     ''        return [t for t in self.todos if not t['completed']]'',
     '''',
     ''if __name__ == "__main__":'',
     ''    app = TodoApp()'',
     ''    app.add_todo("Learn Python")'',
     ''    app.add_todo("Build a todo app")'',
     ''    print(f"Total todos: {len(app.get_todos())}")'']\<close>

definition calculator_js_template :: string where
  \<open>calculator_js_template = join_lines
    [''// Advanced Calculator Implementation'',
     ''class Calculator {'',
     ''  constructor() {'',
     ''    this.history = [];'',
     ''  }'',
     '''',
     ''  add(a, b) {'',
     ''    const result = a + b;'',
     ''    this.history.push(`${a} + ${b} = ${result}`);'',
     ''    return result;'',
     ''  }'',
     '''',
     ''  subtract(a, b) {'',
     ''    const result = a - b;'',
     ''    this.history.push(`${a} - ${b} = ${result}`);'',
     ''    return result;'',
     ''  }'',
     '''',
     ''  multiply(a, b) {'',
     ''    const result = a * b;'',
     ''    this.history.push(`${a} '' @ [CHR 0xC3, CHR 0x97] @ '' ${b} = ${result}`);'',
     ''    return result;'',
     ''  }'',
     '''',
     ''  divide(a, b) {'',
     ''    if (b === 0) {'',
     ''      throw new Error('Division by zero is not allowed');'',
     ''    }'',
     ''    const result = a / b;'',
     ''    this.history.push(`${a} '' @ [CHR 0xC3, CHR 0xB7] @ '' ${b} = ${result}`);'',
     ''    return result;'',
     ''  }'',
     '''',
     ''  power(base, exponent) {'',
     ''    const result = Math.pow(base, exponent);'',
     ''    this.history.push(`${base}^${exponent} = ${result}`);'',
     ''    return result;'',
     ''  }'',
     '''',
     ''  sqrt(number) {'',
     ''    if (number < 0) {'',
     ''      throw new Error('Cannot calculate square root of negative number');'',
     ''    }'',
     ''    const result = Math.sqrt(number);'',
     ''    this.history.push(`'' @ [CHR 0xE2, CHR 0x88, CHR 0x9A] @ ''${number} = ${result}`);'',
     ''    return result;'',
     ''  }'',
     '''',
     ''  getHistory() {'',
     ''    return this.history;'',
     ''  }'',
     '''',
     ''  clearHistory() {'',
     ''    this.history = [];'',
     ''  }'',
     ''}'',
     '''',
     ''export default Calculator;'']\<close>

definition calculator_py_template :: string where
  \<open>calculator_py_template = join_lines
    [''# Advanced Calculator Implementation'',
     ''import math'',
     ''from typing import List'',
     '''',
     ''class Calculator:'',
     ''    def __init__(self):'',
     ''        self.history: List[str] = []'',
     ''    '',
     ''    def add(self, a: float, b: float) -> float:'',
     ''        result = a + b'',
     ''        self.history.append(f"{a} + {b} = {result}")'',
     ''        return result'',
     ''    '',
     ''    def subtract(self, a: float, b: float) -> float:'',
     ''        result = a - b'',
     ''        self.history.append(f"{a} - {b} = {result}")'',
     ''        return result'',
     ''    '',
     ''    def multiply(self, a: float, b: float) -> float:'',
     ''        result = a * b'',
     ''        self.history.append(f"{a} '' @ [CHR 0xC3, CHR 0x97] @ '' {b} = {result}")'',
     ''        return result'',
     ''    '',
     ''    def divide(self, a: float, b: float) -> float:'',
     ''        if b == 0:'',
     ''            raise ValueError("Division by zero is not allowed")'',
     ''        result = a / b'',
     ''        self.history.append(f"{a} '' @ [CHR 0xC3, CHR 0xB7] @ '' {b} = {result}")'',
     ''        return result'',
     ''    '',
     ''    def power(self, base: float, exponent: float) -> float:'',
     ''        result = math.pow(base, exponent)'',
     ''        self.history.append(f"{base}^{exponent} = {result}")'',
     ''        return result'',
     ''    '',
     ''    def sqrt(self, number: float) -> float:'',
     ''        if number < 0:'',
     ''            raise ValueError("Cannot calculate square root of negative number")'',
     ''        result = math.sqrt(number)'',
     ''        self.history.append(f"'' @ [CHR 0xE2, CHR 0x88, CHR 0x9A] @ ''{number} = {result}")'',
     ''        return result'',
     ''    '',
     ''    def get_history(self) -> List[str]:'',
     ''        return self.history'',
     ''    '',
     ''    def clear_history(self) -> None:'',
     ''        self.history = []'',
     '''',
     ''if __name__ == "__main__":'',
     ''    calc = Calculator()'',
     ''    print(calc.add(10, 5))'',
     ''    print(calc.multiply(3, 4))'',
     ''    print(calc.get_history())'']\<close>

definition generic_js_template :: string where
  \<open>generic_js_template = join_lines
    [''// Generated JavaScript Application'',
     ''console.log('Welcome to CodexOrb!');'',
     '''',
     ''class Application {'',
     ''  constructor(name) {'',
     ''    this.name = name;'',
     ''    this.version = '1.0.0';'',
     ''    this.initialized = false;'',
     ''  }'',
     '''',
     ''  initialize() {'',
     ''    console.log(`Initializing ${this.name} v${this.version}`);'',
     ''    this.initialized = true;'',
     ''    return this;'',
     ''  }'',
     '''',
     ''  processInput(input) {'',
     ''    if (!this.initialized) {'',
     ''      throw new Error('Application not initialized');'',
     ''    }'',
     ''    '',
     ''    return input.toString().toUpperCase();'',
     ''  }'',
     '''',
     ''  getStatus() {'',
     ''    return {'',
     ''      name: this.name,'',
     ''      version: this.version,'',
     ''      initialized: this.initialized,'',
     ''      timestamp: new Date().toISOString()'',
     ''    };'',
     ''  }'',
     ''}'',
     '''',
     ''// Usage example'',
     ''const app = new Application('CodexOrb Demo');'',
     ''app.initialize();'',
     '''',
     ''console.log('Application Status:', app.getStatus());'',
     ''console.log('Processed Input:', app.processInput('hello world'));'',
     '''',
     ''export default Application;'']\<close>

definition generic_py_template :: string where
  \<open>generic_py_template = join_lines
    [''# Generated Python Application'',
     ''print('Welcome to CodexOrb!')'',
     '''',
     ''class Application:'',
     ''    def __init__(self, name: str):'',
     ''        self.name = name'',
     ''        self.version = '1.0.0'' @ [CHR 0x27],
     ''        self.initialized = False'',
     ''    '',
     ''    def initialize(self):'',
     ''        print(f"Initializing {self.name} v{self.version}")'',
     ''        self.initialized = True'',
     ''        return self'',
     ''    '',
     ''    def process_input(self, input_data):'',
     ''        if not self.initialized:'',
     ''            raise RuntimeError('Application not initialized')'',
     ''        '',
     ''        return str(input_data).upper()'',
     ''    '',
     ''    def get_status(self):'',
     ''        from datetime import datetime'',
     ''        return {'',
     ''            'name': self.name,'',
     ''            'version': self.version,'',
     ''            'initialized': self.initialized,'',
     ''            'timestamp': datetime.now().isoformat()'',
     ''        }'',
     '''',
     ''# Usage example'',
     ''if __name__ == "__main__":'',
     ''    app = Application('CodexOrb Demo')'',
     ''    app.initialize()'',
     ''    '',
     ''    print('Application Status:', app.get_status())'',
     ''    print('Processed Input:', app.process_input('hello world'))'']\<close>

definition generateMockCode :: "(string \<Rightarrow> string) \<Rightarrow> string \<Rightarrow> lang \<Rightarrow> mock_code" where
  "generateMockCode lower prompt lng =
     (let isJavaScript = (lng = JavaScript);
          lowerPrompt = lower prompt
      in if str_includes lowerPrompt ''todo'' \<or> str_includes lowerPrompt ''task''
         then \<lparr>mock_filename = (if isJavaScript then ''TodoApp.js'' else ''todo_app.py''),
               mock_content = (if isJavaScript then todo_js_template else todo_py_template),
               mock_description =
                 ''a complete todo management system with add, toggle, delete, and filter functionality'',
               mock_issues = []\<rparr>
         else if str_includes lowerPrompt ''calculator'' \<or> str_includes lowerPrompt ''math''
         then \<lparr>mock_filename = (if isJavaScript then ''Calculator.js'' else ''calculator.py''),
               mock_content =
                 (if isJavaScript then calculator_js_template else calculator_py_template),
               mock_description =
                 ''an advanced calculator with basic operations, power, square root, and calculation history'',
               mock_issues = []\<rparr>
         else \<lparr>mock_filename = (if isJavaScript then ''app.js'' else ''app.py''),
               mock_content = (if isJavaScript then generic_js_template else generic_py_template),
               mock_description =
                 ''a basic application structure with initialization and input processing'',
               mock_issues = []\<rparr>)"

section \<open>Arithmetic on doubles\<close>

text \<open>The number of binary digits of a positive integer.\<close>

function bit_length :: "int \<Rightarrow> nat" where
  "bit_length n = (if n \<le> 0 then 0 else Suc (bit_length (n div 2)))"
  by pat_completeness auto
termination
  by (relation "measure nat") auto

declare bit_length.simps [simp del]

text \<open>
  Rounding to 53 significant bits, to the nearest and on a tie to the even
  mantissa: the rounded mantissa, and the number of bits dropped.
\<close>

definition round53 :: "int \<Rightarrow> int \<times> nat" where
  "round53 n =
     (let l = bit_length n in
      if l \<le> 53 then (n, 0)
      else let s = l - 53; q = n div 2 ^ s; r = n mod 2 ^ s; h = 2 ^ (s - 1)
           in (if h < r \<or> (r = h \<and> odd q) then q + 1 else q, s))"

text \<open>
  The product of a double and a small positive integer, which is exact in the
  integers and then rounded; the result is not below the double, so nothing
  underflows.
\<close>

definition double_times :: "double \<Rightarrow> int \<Rightarrow> double" where
  "double_times x c =
     (case round53 (mantissa x * c) of
        (q, s) \<Rightarrow> \<lparr>mantissa = q, exponent = exponent x + int s\<rparr>)"

text \<open>\<open>Math.floor\<close> of a non-negative double.\<close>

definition double_floor :: "double \<Rightarrow> int" where
  "double_floor x =
     (if 0 \<le> exponent x then mantissa x * 2 ^ nat (exponent x)
      else mantissa x div 2 ^ nat (- exponent x))"

text \<open>
  What \<open>Math.random()\<close> returns: a double that is at least 0 and below 1.
\<close>

definition unit_double :: "double \<Rightarrow> bool" where
  "unit_double x \<longleftrightarrow>
     0 \<le> mantissa x \<and> mantissa x < 2 ^ 53 \<and> exponent x < 0 \<and>
     mantissa x < 2 ^ nat (- exponent x)"

section \<open>Code generation on the client (lines 396-449 and 503-541)\<close>

text \<open>
  \<open>Math.floor(Math.random() * 40) + 60\<close>, for the value \<open>r\<close> of \<open>Math.random()\<close>;
  the sum of two small integers is exact.
\<close>

definition mock_health_score :: "double \<Rightarrow> int" where
  "mock_health_score r = double_floor (double_times r 40) + 60"

text \<open>The row the store action inserts into \<open>code_files\<close>, with the store's defaults.\<close>

definition mock_file :: "env \<Rightarrow> session \<Rightarrow> mock_code \<Rightarrow> code_file" where
  "mock_file e s mockCode =
     \<lparr>file_id = new_file_id e, file_session_id = sess_id s,
      filename = mock_filename mockCode, file_content = mock_content mockCode,
      file_language = language s, file_created_at = now e, file_updated_at = now e,
      health_score = Some (of_int (mock_health_score (math_random e))),
      issues = mock_issues mockCode\<rparr>"

text \<open>
  The store action \<open>generateMockCode\<close> (named apart from the helper of the same
  name it calls).
\<close>

definition generateMockCodeAction :: "env \<Rightarrow> string \<Rightarrow> world \<Rightarrow> world" where
  "generateMockCodeAction e prompt w =
     (case currentSession (app w) of
        None \<Rightarrow> w
      | Some s \<Rightarrow>
          (case user (app w) of
             None \<Rightarrow> w
           | Some uid \<Rightarrow>
               let w1 = w\<lparr>app := (app w)\<lparr>isLoading := True\<rparr>\<rparr>;
                   mockCode = generateMockCode (toLowerCase e) prompt (language s);
                   w2 = (case file_insert_error e of
                           Some msg \<Rightarrow>
                             toast_error ''Failed to generate code''
                               (w1\<lparr>app := (app w1)\<lparr>error := Some msg\<rparr>\<rparr>)
                         | None \<Rightarrow>
                             let w3 = w1\<lparr>db := (db w1)\<lparr>tbl_code_files :=
                                         tbl_code_files (db w1) @ [mock_file e s mockCode]\<rparr>\<rparr>;
                                 w4 = sendMessage e
                                        (''I've generated '' @ mock_filename mockCode @
                                         '' for you. The code includes '' @
                                         mock_description mockCode)
                                        AiMsg w3
                             in toast_success
                                  (''Generated '' @ mock_filename mockCode @ '' (Mock Mode)'') w4)
               in w2\<lparr>app := (app w2)\<lparr>isLoading := False\<rparr>\<rparr>))"

section \<open>The edge function generate-code (supabase/functions/generate-code/index.ts)\<close>

fun truthy :: "js_value \<Rightarrow> bool" where
  "truthy Undefined = False"
| "truthy Null = False"
| "truthy (Boolean b) = b"
| "truthy (Number x) = (x \<noteq> 0)"
| "truthy (String s) = (s \<noteq> [])"
| "truthy Object = True"

text \<open>
  The number \<open>Math.min\<close> reads from its argument, \<open>None\<close> for NaN.  How a string,
  an array or an object converts is the language's; it is the parameter
  \<open>coerce\<close>.
\<close>

fun to_number :: "(js_value \<Rightarrow> real option) \<Rightarrow> js_value \<Rightarrow> real option" where
  "to_number coerce Undefined = None"
| "to_number coerce Null = Some 0"
| "to_number coerce (Boolean b) = Some (if b then 1 else 0)"
| "to_number coerce (Number x) = Some x"
| "to_number coerce v = coerce v"

text \<open>
  \<open>Math.max(60, Math.min(100, v || 85))\<close> (line 134); NaN stays NaN.  The minimum
  and the maximum of two doubles are computed without rounding.
\<close>

definition clamp_score :: "(js_value \<Rightarrow> real option) \<Rightarrow> js_value \<Rightarrow> real option" where
  "clamp_score coerce v =
     map_option (\<lambda>x. max 60 (min 100 x))
       (to_number coerce (if truthy v then v else Number 85))"

text \<open>Lines 127-140: \<open>healthScore\<close> starts as 85 and the analysis may replace it.\<close>

definition healthScore :: "(js_value \<Rightarrow> real option) \<Rightarrow> analysis_outcome \<Rightarrow> real option" where
  "healthScore coerce outcome =
     (case outcome of
        ResponseNotOk \<Rightarrow> Some 85
      | AnalysisThrew \<Rightarrow> Some 85
      | Analysis v \<Rightarrow> clamp_score coerce v)"

text \<open>The decimal digits of a non-negative integer, for \<open>Date.now().toString()\<close>.\<close>

function decimal :: "int \<Rightarrow> string" where
  "decimal n =
     (if n < 10 then [''0123456789'' ! nat n]
      else decimal (n div 10) @ [''0123456789'' ! nat (n mod 10)])"
  by pat_completeness auto
termination
  by (relation "measure nat") auto

declare decimal.simps [simp del]

text \<open>\<open>generateFilename\<close> (lines 231-257).\<close>

definition generateFilename :: "(string \<Rightarrow> string) \<Rightarrow> int \<Rightarrow> string \<Rightarrow> lang \<Rightarrow> string" where
  "generateFilename lower dateNow prompt lng =
     (let lowerPrompt = lower prompt;
          ext = (if lng = JavaScript then ''js'' else ''py'')
      in if str_includes lowerPrompt ''todo'' \<or> str_includes lowerPrompt ''task''
         then ''todo-app.'' @ ext
         else if str_includes lowerPrompt ''calculator'' \<or> str_includes lowerPrompt ''calc''
         then ''calculator.'' @ ext
         else if str_includes lowerPrompt ''api'' \<or> str_includes lowerPrompt ''server''
         then ''api-server.'' @ ext
         else if str_includes lowerPrompt ''auth'' \<or> str_includes lowerPrompt ''login''
         then ''auth.'' @ ext
         else if str_includes lowerPrompt ''database'' \<or> str_includes lowerPrompt ''db''
         then ''database.'' @ ext
         else if str_includes lowerPrompt ''component'' \<or> str_includes lowerPrompt ''ui''
         then ''component.'' @ ext
         else if str_includes lowerPrompt ''util'' \<or> str_includes lowerPrompt ''helper''
         then ''utils.'' @ ext
         else let timestamp = (let t = decimal dateNow in drop (length t - 4) t)
              in ''generated-'' @ timestamp @ ''.'' @ ext)"

text \<open>The request the client sends, and what the handler answers.\<close>

record request =
  req_prompt :: string
  req_language :: lang
  req_session :: uuid
  req_authorization :: bool

datatype response = Ok200 code_file string | Error500 string

text \<open>
  The handler (lines 21-229), step by step; an error thrown at any step is
  caught at the end and answered with status 500, and what has been written to
  the store by then stays written.  The result of the insert into \<open>messages\<close> is
  not looked at.
\<close>

definition generate_code_function ::
  "edge_env \<Rightarrow> (string \<Rightarrow> string) \<Rightarrow> request \<Rightarrow> database \<Rightarrow> response \<times> database" where
  "generate_code_function g lower req d =
     (if \<not> groq_api_key g then (Error500 ''GROQ_API_KEY not configured'', d)
      else if \<not> req_authorization req then (Error500 ''No authorization header'', d)
      else
        (case token_user g of
           None \<Rightarrow> (Error500 ''Invalid authentication'', d)
         | Some uid \<Rightarrow>
             (case generated_code g of
                Throws msg \<Rightarrow> (Error500 msg, d)
              | Returns generatedCode \<Rightarrow>
                  (case analysis_response g of
                     Throws msg \<Rightarrow> (Error500 msg, d)
                   | Returns outcome \<Rightarrow>
                       let score = healthScore (to_number_builtin g) outcome;
                           found = (case outcome of
                                      Analysis v \<Rightarrow> analysis_issues g
                                    | _ \<Rightarrow> []);
                           fname = generateFilename lower (date_now g)
                                     (req_prompt req) (req_language req)
                       in (case edge_insert_error g of
                             Some msg \<Rightarrow> (Error500 (''Database error: '' @ msg), d)
                           | None \<Rightarrow>
                               let codeFile =
                                     \<lparr>file_id = edge_file_id g,
                                      file_session_id = req_session req,
                                      filename = fname, file_content = generatedCode,
                                      file_language = req_language req,
                                      file_created_at = edge_now g,
                                      file_updated_at = edge_now g,
                                      health_score = score, issues = found\<rparr>;
                                   d1 = d\<lparr>tbl_code_files := tbl_code_files d @ [codeFile]\<rparr>;
                                   fallback =
                                     ''I've generated '' @ fname @
                                     '' for you! The code includes everything you requested.''
                               in (case chat_completion g of
                                     ReplyThrows msg \<Rightarrow> (Error500 msg, d1)
                                   | answered \<Rightarrow>
                                       let aiMessage =
                                             (case answered of
                                                ReplyOk (Some c) \<Rightarrow>
                                                  if c = [] then fallback else c
                                              | _ \<Rightarrow> fallback);
                                           d2 = (if edge_message_refused g then d1
                                                 else d1\<lparr>tbl_messages := tbl_messages d1 @
                                                   [\<lparr>msg_id = edge_message_id g,
                                                     msg_session_id = req_session req,
                                                     msg_user_id = uid,
                                                     msg_content = aiMessage,
                                                     msg_type = AiMsg,
                                                     msg_created_at = edge_now g\<rparr>]\<rparr>)
                                       in (Ok200 codeFile aiMessage, d2)))))))"

section \<open>generateCode (lines 396-449)\<close>

text \<open>
  \<open>supabase.functions.invoke\<close>: the function cannot be reached, or it runs and
  its answer is handed back, an answer that is not 2xx as the client library's
  error.
\<close>

definition invoke_generate_code :: "env \<Rightarrow> request \<Rightarrow> database \<Rightarrow> invoke_result \<times> database" where
  "invoke_generate_code e req d =
     (case function_unreachable e of
        Some msg \<Rightarrow> (InvokeError msg, d)
      | None \<Rightarrow>
          (case generate_code_function (edge e) (toLowerCase e) req d of
             (Error500 msg, d') \<Rightarrow> (InvokeError (non_2xx_message e), d')
           | (Ok200 codeFile aiMessage, d') \<Rightarrow> (InvokeSuccess (filename codeFile), d')))"

text \<open>
  What the \<open>try\<close> block makes of \<open>{ data, error }\<close>: the filename of the generated
  file, or the message of the error thrown.
\<close>

definition generation_outcome :: "invoke_result \<Rightarrow> string + string" where
  "generation_outcome res =
     (case res of
        InvokeError msg \<Rightarrow> Inl msg
      | InvokeNoData \<Rightarrow> Inl ''Failed to generate code''
      | InvokeSuccess fname \<Rightarrow> Inr fname
      | InvokeFailure None \<Rightarrow> Inl ''Failed to generate code''
      | InvokeFailure (Some msg) \<Rightarrow>
          Inl (if msg = [] then ''Failed to generate code'' else msg))"

definition generateCode :: "env \<Rightarrow> string \<Rightarrow> world \<Rightarrow> world" where
  "generateCode e prompt w =
     (case currentSession (app w) of
        None \<Rightarrow> toast_error ''No active session'' w
      | Some s \<Rightarrow>
          (case user (app w) of
             None \<Rightarrow> toast_error ''No active session'' w
           | Some uid \<Rightarrow>
               let w1 = w\<lparr>app := (app w)\<lparr>isLoading := True\<rparr>\<rparr>;
                   tried =
                     (if \<not> auth_session e then (Inl ''No auth session'', db w1)
                      else (case invoke_generate_code e
                                   \<lparr>req_prompt = prompt, req_language = language s,
                                    req_session = sess_id s, req_authorization = True\<rparr>
                                   (db w1) of
                              (res, d') \<Rightarrow> (generation_outcome res, d')));
                   w2 = w1\<lparr>db := snd tried\<rparr>;
                   w3 = (case fst tried of
                           Inr fname \<Rightarrow> toast_success (''Generated '' @ fname) w2
                         | Inl msg \<Rightarrow>
                             generateMockCodeAction e prompt
                               (w2\<lparr>app := (app w2)\<lparr>error := Some msg\<rparr>\<rparr>))
               in w3\<lparr>app := (app w3)\<lparr>isLoading := False\<rparr>\<rparr>))"

section \<open>updateCodeFile (lines 451-479)\<close>

datatype thrown = NotAuthenticated | StoreError string | NoSingleRow

text \<open>
  The update \<open>.update({content}).eq('id', fileId).select().single()\<close>; the
  trigger of the schema sets \<open>updated_at\<close>.  An error is thrown to the caller
  and the state stays as it was.
\<close>

definition updateCodeFile :: "env \<Rightarrow> uuid \<Rightarrow> string \<Rightarrow> world \<Rightarrow> thrown + world" where
  "updateCodeFile e fileId content w =
     (case user (app w) of
        None \<Rightarrow> Inl NotAuthenticated
      | Some uid \<Rightarrow>
          (case file_update_error e of
             Some msg \<Rightarrow> Inl (StoreError msg)
           | None \<Rightarrow>
               (case single_row (filter (\<lambda>f. file_id f = fileId) (tbl_code_files (db w))) of
                  None \<Rightarrow> Inl NoSingleRow
                | Some row \<Rightarrow>
                    Inr (w\<lparr>db := (db w)\<lparr>tbl_code_files :=
                              map (\<lambda>f. if file_id f = fileId
                                       then f\<lparr>file_content := content, file_updated_at := now e\<rparr>
                                       else f)
                                (tbl_code_files (db w))\<rparr>,
                          app := (app w)\<lparr>codeFiles :=
                              map (\<lambda>file. if file_id file = fileId
                                          then file\<lparr>file_content := content\<rparr> else file)
                                (codeFiles (app w))\<rparr>\<rparr>))))"

section \<open>Runs of one client\<close>

text \<open>
  What happens to a client: the store actions its components call, the exposed
  subscription actions, a change notification arriving, and the store being
  written by others.  An action runs as one step, but for \<open>joinSession\<close>, whose
  synchronous end may also come as a step of its own (\<open>JoinCompletes\<close>) after
  other steps, with the data an earlier part of the join has loaded.
  \<open>inviteToSession\<close>, which changes nothing, the toggles and the bare setters,
  which no component calls on the session, are not among the actions.
\<close>

datatype action =
    SetUser "uuid option"
  | LoadSessions env
  | CreateSession env string string lang
  | JoinSession env uuid
  | JoinCompletes session "message list" "code_file list" "session_participant list"
  | SendMessage env string message_type
  | GenerateCode env string
  | GenerateMockCode env string
  | UpdateCodeFile env uuid string
  | SetupRealtimeSubscriptions
  | CleanupSubscriptions
  | Notify event
  | StoreWritten database

fun step :: "action \<Rightarrow> world \<Rightarrow> world" where
  "step (SetUser u) w = w\<lparr>app := (app w)\<lparr>user := u\<rparr>\<rparr>"
| "step (LoadSessions e) w = loadSessions e w"
| "step (CreateSession e name descr lng) w = createSession e name descr lng w"
| "step (JoinSession e sessionId) w = joinSession e sessionId w"
| "step (JoinCompletes s msgs files participants) w = finish_join s msgs files participants w"
| "step (SendMessage e content type) w = sendMessage e content type w"
| "step (GenerateCode e prompt) w = generateCode e prompt w"
| "step (GenerateMockCode e prompt) w = generateMockCodeAction e prompt w"
| "step (UpdateCodeFile e fileId content) w =
     (case updateCodeFile e fileId content w of Inl err \<Rightarrow> w | Inr w' \<Rightarrow> w')"
| "step SetupRealtimeSubscriptions w = setupRealtimeSubscriptions w"
| "step CleanupSubscriptions w = cleanupSubscriptions w"
| "step (Notify ev) w = notify ev w"
| "step (StoreWritten d) w = w\<lparr>db := d\<rparr>"

definition run :: "action list \<Rightarrow> world \<Rightarrow> world" where
  "run acts w = fold step acts w"

text \<open>The initial state of the zustand store (lines 86-97), over a given store.\<close>

definition initial_app :: app_state where
  "initial_app =
     \<lparr>user = None, currentSession = None, sessions = [], messages = [], codeFiles = [],
      sessionParticipants = [], isLoading = False, error = None, darkMode = True,
      voiceInput = False, sidebarCollapsed = False\<rparr>"

definition initial_world :: "database \<Rightarrow> world" where
  "initial_world d = \<lparr>app = initial_app, db = d, window_subs = None, live = [], toasts = []\<rparr>"

section \<open>joinSession in two parts, and the channel invariant\<close>

text \<open>
  The decision \<open>joinSession\<close> takes before it writes anything: the message of the
  error it throws, or the session it goes on to install.
\<close>

definition join_decision :: "env \<Rightarrow> database \<Rightarrow> uuid \<Rightarrow> uuid \<Rightarrow> string + session" where
  "join_decision e d sessionId uid =
     (case fetch_session e d sessionId of
        (data, True) \<Rightarrow> Inl ''Session not found or access denied''
      | (None, False) \<Rightarrow> Inl ''Session not found''
      | (Some s, False) \<Rightarrow>
          if \<not> (owner_id s = uid \<or> is_public s) \<and> participant_check e d sessionId uid = None
          then Inl ''You do not have access to this session''
          else Inr s)"

text \<open>The store after the registration step of a join that was let through.\<close>

definition join_store :: "env \<Rightarrow> uuid \<Rightarrow> uuid \<Rightarrow> session \<Rightarrow> database \<Rightarrow> database" where
  "join_store e sessionId uid s d =
     (if owner_id s \<noteq> uid then upsert_participant e sessionId uid d else d)"

text \<open>The zustand state a join that was let through installs.\<close>

definition join_state :: "env \<Rightarrow> uuid \<Rightarrow> session \<Rightarrow> database \<Rightarrow> app_state \<Rightarrow> app_state" where
  "join_state e sessionId s d a =
     a\<lparr>currentSession := Some s, messages := load_messages e d sessionId,
       codeFiles := load_code_files e d sessionId,
       sessionParticipants := load_participants e d sessionId,
       isLoading := False, error := None\<rparr>"

text \<open>
  The live channels are those recorded in \<open>window.supabaseSubscriptions\<close>, and
  each is filtered to the identifier of the active session.
\<close>

definition channels_tracked :: "world \<Rightarrow> bool" where
  "channels_tracked w \<longleftrightarrow> live w = (case window_subs w of None \<Rightarrow> [] | Some cs \<Rightarrow> cs)"

definition channels_scoped :: "world \<Rightarrow> bool" where
  "channels_scoped w \<longleftrightarrow>
     (\<forall>c \<in> set (live w). map_option sess_id (currentSession (app w)) = Some (channel_session c))"

section \<open>Sample inputs\<close>

text \<open>
  A small store: user \<open>u1\<close> owns the private session \<open>A\<close>, user \<open>u2\<close> owns the
  private session \<open>B\<close> and the public session \<open>C\<close>; \<open>u1\<close> has a participant row
  in \<open>A\<close> (as owner) and in \<open>B\<close>.
\<close>

definition sessA :: session where
  "sessA = \<lparr>sess_id = ''A'', sess_name = ''alpha'', description = [], owner_id = ''u1'',
            sess_created_at = 1, sess_updated_at = 10, is_public = False,
            language = JavaScript\<rparr>"

definition sessB :: session where
  "sessB = \<lparr>sess_id = ''B'', sess_name = ''beta'', description = [], owner_id = ''u2'',
            sess_created_at = 2, sess_updated_at = 20, is_public = False,
            language = Python\<rparr>"

definition sessC :: session where
  "sessC = \<lparr>sess_id = ''C'', sess_name = ''gamma'', description = [], owner_id = ''u2'',
            sess_created_at = 3, sess_updated_at = 30, is_public = True,
            language = Python\<rparr>"

definition partA1 :: session_participant where
  "partA1 = \<lparr>part_id = ''p0'', part_session_id = ''A'', part_user_id = ''u1'',
             part_role = Owner, joined_at = 1, last_active = 1\<rparr>"

definition partB1 :: session_participant where
  "partB1 = \<lparr>part_id = ''p1'', part_session_id = ''B'', part_user_id = ''u1'',
             part_role = Viewer, joined_at = 2, last_active = 2\<rparr>"

definition db0 :: database where
  "db0 = \<lparr>tbl_sessions = [sessA, sessB, sessC], tbl_messages = [], tbl_code_files = [],
          tbl_session_participants = [partA1, partB1]\<rparr>"

text \<open>
  The same store after \<open>u1\<close> has also joined the public session \<open>C\<close>: \<open>u1\<close> then
  has a participant row in each of the three sessions.
\<close>

definition partC1 :: session_participant where
  "partC1 = \<lparr>part_id = ''p2'', part_session_id = ''C'', part_user_id = ''u1'',
             part_role = Developer, joined_at = 3, last_active = 3\<rparr>"

definition db_member :: database where
  "db_member = db0\<lparr>tbl_session_participants := [partA1, partB1, partC1]\<rparr>"

text \<open>
  \<open>toLowerCase\<close> on strings of ASCII characters: the capitals A to Z become small
  letters and every other character stays.
\<close>

definition ascii_lower :: "string \<Rightarrow> string" where
  "ascii_lower s =
     map (\<lambda>c. case map_of (zip ''ABCDEFGHIJKLMNOPQRSTUVWXYZ'' ''abcdefghijklmnopqrstuvwxyz'') c of
                Some l \<Rightarrow> l
              | None \<Rightarrow> c) s"

text \<open>
  The doubles 0.5 and 0.7 (the latter is \<open>0x1.6666666666666p-1\<close>).
\<close>

definition double_half :: double where
  "double_half = \<lparr>mantissa = 1, exponent = - 1\<rparr>"

definition double_seven_tenths :: double where
  "double_seven_tenths = \<lparr>mantissa = 6305039478318694, exponent = - 53\<rparr>"

text \<open>
  An edge function without its API key: it fails at its first check.  Of the
  language's conversion to a number the samples use two values: the string "90"
  is 90, and the string "high" is NaN.
\<close>

definition edge0 :: edge_env where
  "edge0 = \<lparr>groq_api_key = False, token_user = Some ''u1'', generated_code = Returns ''// todo'',
            analysis_response = Returns (Analysis (Number 92)),
            to_number_builtin = (\<lambda>v. if v = String ''90'' then Some 90 else None),
            analysis_issues = [], date_now = 1751270400000, edge_insert_error = None,
            chat_completion = ReplyOk (Some ''Done.''), edge_message_refused = False,
            edge_file_id = ''n5'', edge_message_id = ''n6'', edge_now = 100\<rparr>"

text \<open>Surroundings in which the store answers every request and both edge functions fail.\<close>

definition env0 :: env where
  "env0 = \<lparr>owned_error = None, participant_sessions_error = None, session_fetch_error = None,
           participant_check_error = None, upsert_error = None, messages_error = None,
           files_error = None, participants_error = None, message_insert_error = None,
           file_insert_error = None, session_insert_error = None, owner_insert_error = None,
           file_update_error = None, new_id = ''n1'', new_file_id = ''n2'',
           new_session_id = ''n4'', reply_id = ''n3'',
           now = 100, math_random = double_half, toLowerCase = ascii_lower,
           auth_session = True, function_unreachable = None,
           non_2xx_message = ''Edge Function returned a non-2xx status code'',
           edge = edge0, chat_reply = None\<rparr>"

text \<open>
  The edge function with its key: it generates and stores a file, and then the
  request for the chat reply fails.
\<close>

definition env_late_failure :: env where
  "env_late_failure =
     env0\<lparr>edge := edge0\<lparr>groq_api_key := True, chat_completion := ReplyThrows ''fetch failed''\<rparr>\<rparr>"

text \<open>
  The edge function with its key and an analysis whose \<open>healthScore\<close> is the
  string "high", which the language converts to NaN.
\<close>

definition env_score_text :: env where
  "env_score_text =
     env0\<lparr>edge := edge0\<lparr>groq_api_key := True,
                          analysis_response := Returns (Analysis (String ''high''))\<rparr>\<rparr>"

text \<open>The client of a user who has signed in and done nothing else.\<close>

definition signed_in :: "uuid \<Rightarrow> database \<Rightarrow> world" where
  "signed_in uid d = step (SetUser (Some uid)) (initial_world d)"

definition file1 :: code_file where
  "file1 = \<lparr>file_id = ''f1'', file_session_id = ''A'', filename = ''app.js'',
            file_content = ''x'', file_language = JavaScript, file_created_at = 5,
            file_updated_at = 6, health_score = Some 85, issues = []\<rparr>"

definition file1_edited :: code_file where
  "file1_edited = file1\<lparr>file_content := ''y'', file_updated_at := 7\<rparr>"

text \<open>The sample store with one code file in session \<open>A\<close>.\<close>

definition db1 :: database where
  "db1 = db0\<lparr>tbl_code_files := [file1]\<rparr>"

text \<open>User \<open>u1\<close> after joining session \<open>A\<close> of the sample store.\<close>

definition joined_A :: world where
  "joined_A = joinSession env0 ''A'' (signed_in ''u1'' db0)"

text \<open>A message of user \<open>u2\<close> in session \<open>A\<close>, as the store would announce it.\<close>

definition msgA :: message where
  "msgA = \<lparr>msg_id = ''m9'', msg_session_id = ''A'', msg_user_id = ''u2'',
           msg_content = ''late'', msg_type = UserMsg, msg_created_at = 50\<rparr>"

section \<open>Properties of loadSessions\<close>

lemma combine_ids:
  "sess_id ` set (combine acc ps) = sess_id ` set acc \<union> sess_id ` {s. Some s \<in> set ps}"
proof (induction acc ps rule: combine.induct)
  case (1 allSessions)
  then show ?case by simp
next
  case (2 allSessions ps)
  then show ?case by auto
next
  case (3 allSessions s ps)
  have split: "{x. Some x \<in> set (Some s # ps)} = insert s {x. Some x \<in> set ps}"
    by auto
  show ?case
  proof (cases "find (\<lambda>a. sess_id a = sess_id s) allSessions = None")
    case True
    then have eq: "combine allSessions (Some s # ps) = combine (allSessions @ [s]) ps"
      by simp
    show ?thesis unfolding eq split "3.IH"(1)[OF True] by auto
  next
    case False
    then have eq: "combine allSessions (Some s # ps) = combine allSessions ps"
      by (simp only: combine.simps if_False)
    from False obtain a where a: "a \<in> set allSessions" "sess_id a = sess_id s"
      by (auto simp: find_None_iff)
    then have "sess_id s \<in> sess_id ` set allSessions"
      by (metis imageI)
    then show ?thesis unfolding eq split "3.IH"(2)[OF False] by auto
  qed
qed

lemma combine_subset:
  "set (combine acc ps) \<subseteq> set acc \<union> {s. Some s \<in> set ps}"
  by (induction acc ps rule: combine.induct) auto

lemma combine_keeps: "set acc \<subseteq> set (combine acc ps)"
  by (induction acc ps rule: combine.induct) auto

lemma combine_distinct:
  "distinct (map sess_id acc) \<Longrightarrow> distinct (map sess_id (combine acc ps))"
proof (induction acc ps rule: combine.induct)
  case (1 allSessions)
  then show ?case by simp
next
  case (2 allSessions ps)
  then show ?case by simp
next
  case (3 allSessions s ps)
  show ?case
  proof (cases "find (\<lambda>a. sess_id a = sess_id s) allSessions = None")
    case True
    then have eq: "combine allSessions (Some s # ps) = combine (allSessions @ [s]) ps"
      by simp
    from True have "sess_id s \<notin> sess_id ` set allSessions"
      by (auto simp: find_None_iff)
    with "3.prems" have "distinct (map sess_id (allSessions @ [s]))"
      by simp
    then show ?thesis unfolding eq by (rule "3.IH"(1)[OF True])
  next
    case False
    then have eq: "combine allSessions (Some s # ps) = combine allSessions ps"
      by (simp only: combine.simps if_False)
    show ?thesis unfolding eq by (rule "3.IH"(2)[OF False "3.prems"])
  qed
qed


lemma find_by_key:
  "distinct (map f xs) \<Longrightarrow>
   find (\<lambda>s. f s = k \<and> P s) xs = Some s \<longleftrightarrow> s \<in> set xs \<and> f s = k \<and> P s"
proof (induction xs)
  case Nil
  then show ?case by simp
next
  case (Cons x xs)
  then show ?case by (cases "f x = k") (auto simp: image_iff)
qed

lemma same_key_same_row:
  "distinct (map f xs) \<Longrightarrow> a \<in> set xs \<Longrightarrow> b \<in> set xs \<Longrightarrow> f a = f b \<Longrightarrow> a = b"
  by (meson distinct_map inj_onD)

text \<open>
  The sessions the second query embeds: those of the user's participant rows
  that the select policy on \<open>sessions\<close> lets the user read.
\<close>

lemma participant_sessions_set:
  assumes "distinct (map sess_id (tbl_sessions d))"
  shows "{s. Some s \<in> set (participant_sessions d uid)} =
         {s \<in> set (tbl_sessions d).
            sessions_select_policy uid s \<and>
            (\<exists>p \<in> set (tbl_session_participants d).
               part_user_id p = uid \<and> part_session_id p = sess_id s)}"
  using find_by_key[OF assms]
  by (auto simp: participant_sessions_def image_iff) (metis+)

lemma owned_sessions_set:
  "set (owned_sessions d uid) = {s \<in> set (tbl_sessions d). owner_id s = uid}"
  by (auto simp: owned_sessions_def)

lemma combine_set:
  assumes pk: "distinct (map sess_id tbl)"
    and acc: "set acc \<subseteq> set tbl"
    and ps: "{s. Some s \<in> set ps} \<subseteq> set tbl"
  shows "set (combine acc ps) = set acc \<union> {s. Some s \<in> set ps}"
proof
  show "set (combine acc ps) \<subseteq> set acc \<union> {s. Some s \<in> set ps}"
    by (rule combine_subset)
next
  show "set acc \<union> {s. Some s \<in> set ps} \<subseteq> set (combine acc ps)"
  proof
    fix s assume "s \<in> set acc \<union> {s. Some s \<in> set ps}"
    then consider "s \<in> set acc" | "Some s \<in> set ps" by auto
    then show "s \<in> set (combine acc ps)"
    proof cases
      case 1
      then show ?thesis using combine_keeps by blast
    next
      case 2
      then have "sess_id s \<in> sess_id ` set (combine acc ps)"
        unfolding combine_ids by blast
      then obtain s' where s': "s' \<in> set (combine acc ps)" "sess_id s' = sess_id s"
        by (auto simp: image_iff)
      then have "s' \<in> set tbl"
        using combine_subset[of acc ps] acc ps by blast
      moreover have "s \<in> set tbl" using 2 ps by blast
      ultimately have "s' = s"
        using same_key_same_row[OF pk] s'(2) by blast
      with s'(1) show ?thesis by simp
    qed
  qed
qed

lemma sort_by_updated_sorted:
  "sorted_wrt (\<lambda>a b. sess_updated_at b \<le> sess_updated_at a) (sort_by_updated xs)"
proof -
  have "sorted (map (\<lambda>s. - sess_updated_at s) (sort_by_updated xs))"
    unfolding sort_by_updated_def by (rule sorted_sort_key)
  then show ?thesis by (simp add: sorted_map)
qed

lemma sort_by_updated_set: "set (sort_by_updated xs) = set xs"
  by (simp add: sort_by_updated_def)

lemma sort_by_updated_distinct:
  "distinct (map sess_id (sort_by_updated xs)) = distinct (map sess_id xs)"
proof -
  have "mset (map sess_id (sort_by_updated xs)) = mset (map sess_id xs)"
    by (simp add: sort_by_updated_def)
  then show ?thesis by (metis mset_eq_imp_distinct_iff)
qed

lemma loadSessions_ok:
  assumes "user (app w) = Some uid" "owned_error e = None" "participant_sessions_error e = None"
  shows "sessions (app (loadSessions e w)) =
         sort_by_updated (combine (owned_sessions (db w) uid) (participant_sessions (db w) uid))"
  using assms by (simp add: loadSessions_def Let_def)

lemma loadSessions_failed:
  assumes "user (app w) = Some uid" "owned_error e \<noteq> None \<or> participant_sessions_error e \<noteq> None"
  shows "sessions (app (loadSessions e w)) = sessions (app w) \<and>
         error (app (loadSessions e w)) \<noteq> None \<and>
         toasts (loadSessions e w) = toasts w @ [ToastError ''Failed to load sessions'']"
  using assms
  by (auto simp: loadSessions_def load_failed_def toast_error_def Let_def split: option.splits)

text \<open>
  What loadSessions installs, for a signed-in user and a store whose session
  identifiers are unique (the primary key): when both queries answer, exactly the
  sessions the user owns together with those sessions of the user's participant
  rows that the user owns or that are public, no identifier twice, newest update
  first; when either query fails, the call fails (an error is recorded and the
  failure toast shown) and the installed list stays as it was.
\<close>

lemma loadSessions_visible_union_sorted_atomic:
  assumes "user (app w) = Some uid"
    and "distinct (map sess_id (tbl_sessions (db w)))"
  shows "(owned_error e = None \<and> participant_sessions_error e = None \<longrightarrow>
            set (sessions (app (loadSessions e w))) =
              {s \<in> set (tbl_sessions (db w)). owner_id s = uid} \<union>
              {s \<in> set (tbl_sessions (db w)).
                 (owner_id s = uid \<or> is_public s) \<and>
                 (\<exists>p \<in> set (tbl_session_participants (db w)).
                    part_user_id p = uid \<and> part_session_id p = sess_id s)} \<and>
            distinct (map sess_id (sessions (app (loadSessions e w)))) \<and>
            sorted_wrt (\<lambda>a b. sess_updated_at b \<le> sess_updated_at a)
              (sessions (app (loadSessions e w)))) \<and>
         (owned_error e \<noteq> None \<or> participant_sessions_error e \<noteq> None \<longrightarrow>
            sessions (app (loadSessions e w)) = sessions (app w) \<and>
            error (app (loadSessions e w)) \<noteq> None \<and>
            toasts (loadSessions e w) = toasts w @ [ToastError ''Failed to load sessions''])"
proof (intro conjI impI)
  assume ok: "owned_error e = None \<and> participant_sessions_error e = None"
  let ?owned = "owned_sessions (db w) uid"
  let ?ps = "participant_sessions (db w) uid"
  have res: "sessions (app (loadSessions e w)) = sort_by_updated (combine ?owned ?ps)"
    using loadSessions_ok assms(1) ok by blast
  have owned: "set ?owned \<subseteq> set (tbl_sessions (db w))"
    by (auto simp: owned_sessions_set)
  have ps: "{s. Some s \<in> set ?ps} \<subseteq> set (tbl_sessions (db w))"
    unfolding participant_sessions_set[OF assms(2)] by blast
  show "set (sessions (app (loadSessions e w))) =
      {s \<in> set (tbl_sessions (db w)). owner_id s = uid} \<union>
      {s \<in> set (tbl_sessions (db w)).
         (owner_id s = uid \<or> is_public s) \<and>
         (\<exists>p \<in> set (tbl_session_participants (db w)).
            part_user_id p = uid \<and> part_session_id p = sess_id s)}"
    unfolding res sort_by_updated_set combine_set[OF assms(2) owned ps]
      participant_sessions_set[OF assms(2)] owned_sessions_set sessions_select_policy_def ..
  have "distinct (map sess_id ?owned)"
  proof -
    have "distinct (map sess_id (filter (\<lambda>s. owner_id s = uid) (tbl_sessions (db w))))"
      using assms(2) by (rule distinct_map_filter)
    moreover have "mset (map sess_id ?owned) =
        mset (map sess_id (filter (\<lambda>s. owner_id s = uid) (tbl_sessions (db w))))"
      by (simp add: owned_sessions_def)
    ultimately show ?thesis by (metis mset_eq_imp_distinct_iff)
  qed
  then show "distinct (map sess_id (sessions (app (loadSessions e w))))"
    unfolding res sort_by_updated_distinct by (rule combine_distinct)
  show "sorted_wrt (\<lambda>a b. sess_updated_at b \<le> sess_updated_at a)
      (sessions (app (loadSessions e w)))"
    unfolding res by (rule sort_by_updated_sorted)
next
  assume "owned_error e \<noteq> None \<or> participant_sessions_error e \<noteq> None"
  then show "sessions (app (loadSessions e w)) = sessions (app w)"
    and "error (app (loadSessions e w)) \<noteq> None"
    and "toasts (loadSessions e w) = toasts w @ [ToastError ''Failed to load sessions'']"
    using loadSessions_failed[OF assms(1)] by blast+
qed

lemma loadSessions_failed_sample:
  "sessions (app (loadSessions (env0\<lparr>participant_sessions_error := Some ''down''\<rparr>)
                    (signed_in ''u1'' db_member))) = [] \<and>
   error (app (loadSessions (env0\<lparr>participant_sessions_error := Some ''down''\<rparr>)
                    (signed_in ''u1'' db_member))) = Some ''down''"
  by (simp add: loadSessions_def load_failed_def toast_error_def Let_def env0_def
      signed_in_def initial_world_def initial_app_def)

text \<open>
  C6.  The code at a store in which user \<open>u1\<close> has a participant row in each of
  the sessions \<open>A\<close>, \<open>B\<close> and \<open>C\<close>, where \<open>B\<close> is a private session of user \<open>u2\<close>,
  with both queries answered: loadSessions installs \<open>C\<close> and \<open>A\<close>, newest first.
  Session \<open>B\<close>, in which \<open>u1\<close> appears as a participant, is not in the list: the
  select policy on \<open>sessions\<close> hides its row from \<open>u1\<close>, so the second query embeds
  nothing for it.
\<close>

theorem loadSessions_hides_private_participation:
  "user (app (signed_in ''u1'' db_member)) = Some ''u1'' \<and>
   owned_error env0 = None \<and> participant_sessions_error env0 = None \<and>
   tbl_sessions (db (signed_in ''u1'' db_member)) = [sessA, sessB, sessC] \<and>
   filter (\<lambda>p. part_user_id p = ''u1'')
     (tbl_session_participants (db (signed_in ''u1'' db_member))) = [partA1, partB1, partC1] \<and>
   map part_session_id [partA1, partB1, partC1] = map sess_id [sessA, sessB, sessC] \<and>
   sessions (app (loadSessions env0 (signed_in ''u1'' db_member))) = [sessC, sessA] \<and>
   sessB \<notin> set (sessions (app (loadSessions env0 (signed_in ''u1'' db_member))))"
proof -
  let ?w = "signed_in ''u1'' db_member"
  have u: "user (app ?w) = Some ''u1''"
    by (simp add: signed_in_def)
  have ok: "owned_error env0 = None" "participant_sessions_error env0 = None"
    by (simp_all add: env0_def)
  have tbl: "tbl_sessions (db ?w) = [sessA, sessB, sessC]"
    "tbl_session_participants (db ?w) = [partA1, partB1, partC1]"
    by (simp_all add: signed_in_def initial_world_def db_member_def db0_def)
  have mine: "filter (\<lambda>p. part_user_id p = ''u1'') [partA1, partB1, partC1] =
      [partA1, partB1, partC1]"
    by (simp add: partA1_def partB1_def partC1_def)
  have ids: "map part_session_id [partA1, partB1, partC1] = map sess_id [sessA, sessB, sessC]"
    by (simp add: partA1_def partB1_def partC1_def sessA_def sessB_def sessC_def)
  have owned: "owned_sessions (db ?w) ''u1'' = [sessA]"
    unfolding owned_sessions_def tbl
    by (simp add: sessA_def sessB_def sessC_def)
  have embedded: "participant_sessions (db ?w) ''u1'' = [Some sessA, None, Some sessC]"
    unfolding participant_sessions_def tbl mine
    by (simp add: sessions_select_policy_def partA1_def partB1_def partC1_def
        sessA_def sessB_def sessC_def)
  have comb: "combine [sessA] [Some sessA, None, Some sessC] = [sessA, sessC]"
    by (simp add: sessA_def sessC_def)
  have sorted: "sort_by_updated [sessA, sessC] = [sessC, sessA]"
    by (simp add: sort_by_updated_def sessA_def sessC_def)
  have res: "sessions (app (loadSessions env0 ?w)) = [sessC, sessA]"
    unfolding loadSessions_ok[OF u ok] owned embedded comb sorted ..
  have "sessB \<notin> set [sessC, sessA]"
    by (simp add: sessA_def sessB_def sessC_def)
  with u ok tbl mine ids res show ?thesis by simp
qed
section \<open>Access enforcement in joinSession\<close>

text \<open>
  C1.  A signed-in user asks to join a session of the store that is private,
  that the user does not own and for which the store holds no participant row
  of the user.  Whatever the store answers to any request, the join fails: an
  error is recorded and shown as a toast, the store is left as it was (no
  participant row is written), and the active session, messages, code files,
  participants and channels are unchanged.  When the session fetch is answered,
  the error is the access error.
\<close>

theorem joinSession_access_denied:
  assumes "user (app w) = Some uid"
    and "filter (\<lambda>s. sess_id s = sid) (tbl_sessions (db w)) = [s]"
    and "\<not> is_public s"
    and "owner_id s \<noteq> uid"
    and "filter (\<lambda>p. part_session_id p = sid \<and> part_user_id p = uid)
           (tbl_session_participants (db w)) = []"
  shows "error (app (joinSession e sid w)) =
           Some (if session_fetch_error e = None
                 then ''You do not have access to this session''
                 else ''Session not found or access denied'') \<and>
         toasts (joinSession e sid w) =
           toasts w @ [ToastError (if session_fetch_error e = None
                                   then ''You do not have access to this session''
                                   else ''Session not found or access denied'')] \<and>
         db (joinSession e sid w) = db w \<and>
         currentSession (app (joinSession e sid w)) = currentSession (app w) \<and>
         messages (app (joinSession e sid w)) = messages (app w) \<and>
         codeFiles (app (joinSession e sid w)) = codeFiles (app w) \<and>
         sessionParticipants (app (joinSession e sid w)) = sessionParticipants (app w) \<and>
         live (joinSession e sid w) = live w \<and>
         window_subs (joinSession e sid w) = window_subs w"
proof (cases "session_fetch_error e")
  case None
  have fetch: "fetch_session e (db w) sid = (Some s, False)"
    using None assms(2) by (simp add: fetch_session_def single_row_def)
  have check: "participant_check e (db w) sid uid = None"
    using assms(5) by (simp add: participant_check_def single_row_def split: option.splits)
  have "joinSession e sid w =
      join_failed ''You do not have access to this session''
        (w\<lparr>app := (app w)\<lparr>isLoading := True, error := None\<rparr>\<rparr>)"
    using assms(1,3,4) fetch check by (simp add: joinSession_def finish_join_def Let_def)
  then show ?thesis
    using None by (simp add: join_failed_def toast_error_def)
next
  case (Some msg)
  then have fetch: "fetch_session e (db w) sid = (None, True)"
    by (simp add: fetch_session_def)
  have "joinSession e sid w =
      join_failed ''Session not found or access denied''
        (w\<lparr>app := (app w)\<lparr>isLoading := True, error := None\<rparr>\<rparr>)"
    using assms(1) fetch by (simp add: joinSession_def finish_join_def Let_def)
  then show ?thesis
    using Some by (simp add: join_failed_def toast_error_def)
qed

theorem joinSession_access_denied_witness:
  "user (app (signed_in ''u3'' db0)) = Some ''u3'' \<and>
   filter (\<lambda>s. sess_id s = ''A'') (tbl_sessions (db (signed_in ''u3'' db0))) = [sessA] \<and>
   \<not> is_public sessA \<and> owner_id sessA \<noteq> ''u3'' \<and>
   filter (\<lambda>p. part_session_id p = ''A'' \<and> part_user_id p = ''u3'')
     (tbl_session_participants (db (signed_in ''u3'' db0))) = [] \<and>
   error (app (joinSession env0 ''A'' (signed_in ''u3'' db0))) =
     Some ''You do not have access to this session'' \<and>
   db (joinSession env0 ''A'' (signed_in ''u3'' db0)) = db0 \<and>
   currentSession (app (joinSession env0 ''A'' (signed_in ''u3'' db0))) = None"
proof -
  let ?w = "signed_in ''u3'' db0"
  have h1: "user (app ?w) = Some ''u3''" by (simp add: signed_in_def)
  have h2: "session_fetch_error env0 = None" by (simp add: env0_def)
  have h3: "filter (\<lambda>s. sess_id s = ''A'') (tbl_sessions (db ?w)) = [sessA]"
    by (simp add: signed_in_def initial_world_def db0_def sessA_def sessB_def sessC_def)
  have h4: "\<not> is_public sessA" by (simp add: sessA_def)
  have h5: "owner_id sessA \<noteq> ''u3''" by (simp add: sessA_def)
  have h6: "filter (\<lambda>p. part_session_id p = ''A'' \<and> part_user_id p = ''u3'')
     (tbl_session_participants (db ?w)) = []"
    by (simp add: signed_in_def initial_world_def db0_def partA1_def partB1_def)
  have w: "db ?w = db0" "currentSession (app ?w) = None"
    by (simp_all add: signed_in_def initial_world_def initial_app_def)
  from joinSession_access_denied[OF h1 h3 h4 h5 h6, of env0] h1 h2 h3 h4 h5 h6 w
  show ?thesis by simp
qed

section \<open>sendMessage without an active session\<close>

text \<open>
  C7.  Without a user or without an active session, \<open>sendMessage\<close> does nothing
  but show the error toast "No active session": the zustand state (messages
  included), the store and the channels are exactly as before.
\<close>

theorem sendMessage_without_session:
  assumes "user (app w) = None \<or> currentSession (app w) = None"
  shows "app (sendMessage e content type w) = app w \<and>
         db (sendMessage e content type w) = db w \<and>
         live (sendMessage e content type w) = live w \<and>
         window_subs (sendMessage e content type w) = window_subs w \<and>
         toasts (sendMessage e content type w) = toasts w @ [ToastError ''No active session'']"
  using assms
  by (auto simp: sendMessage_def toast_error_def split: option.splits)

theorem sendMessage_without_session_witness:
  "currentSession (app (signed_in ''u1'' db0)) = None \<and>
   messages (app (sendMessage env0 ''hello'' UserMsg (signed_in ''u1'' db0))) = [] \<and>
   db (sendMessage env0 ''hello'' UserMsg (signed_in ''u1'' db0)) = db0 \<and>
   toasts (sendMessage env0 ''hello'' UserMsg (signed_in ''u1'' db0)) =
     [ToastError ''No active session'']"
proof -
  let ?w = "signed_in ''u1'' db0"
  have h: "currentSession (app ?w) = None"
    by (simp add: signed_in_def initial_world_def initial_app_def)
  then have "user (app ?w) = None \<or> currentSession (app ?w) = None" ..
  from sendMessage_without_session[OF this, of env0 "''hello''" UserMsg] h
  show ?thesis
    by (simp add: signed_in_def initial_world_def initial_app_def)
qed

section \<open>The update notification for code files\<close>

lemma notify_three_channels_update:
  assumes "live w = [MessagesChannel sid uid, FilesChannel sid, FileUpdatesChannel sid]"
    and "file_session_id f = sid"
  shows "app (notify (FileUpdated f) w) = on_file_update f (app w)"
  using assms by (simp add: notify_def)

lemma on_file_update_absent:
  assumes "file_id f \<notin> file_id ` set fs"
  shows "map (\<lambda>file. if file_id file = file_id f then f else file) fs = fs"
  using assms by (induction fs) auto

text \<open>
  C4, as the code has it.  An update notification for the active session maps
  over the local files: every local file with the identifier of the updated
  record is replaced by that record, every other file stays in its place, and
  the collection keeps its length; when no local file has the identifier, the
  collection is unchanged and the record is not inserted.
\<close>

theorem file_update_replaces_never_inserts:
  assumes "live w = [MessagesChannel sid uid, FilesChannel sid, FileUpdatesChannel sid]"
    and "file_session_id f = sid"
  shows "codeFiles (app (notify (FileUpdated f) w)) =
           map (\<lambda>file. if file_id file = file_id f then f else file) (codeFiles (app w)) \<and>
         (file_id f \<in> file_id ` set (codeFiles (app w)) \<longrightarrow>
            f \<in> set (codeFiles (app (notify (FileUpdated f) w))) \<and>
            (\<forall>x \<in> set (codeFiles (app (notify (FileUpdated f) w))).
               file_id x = file_id f \<longrightarrow> x = f)) \<and>
         (file_id f \<notin> file_id ` set (codeFiles (app w)) \<longrightarrow>
            codeFiles (app (notify (FileUpdated f) w)) = codeFiles (app w))"
proof -
  have eq: "codeFiles (app (notify (FileUpdated f) w)) =
      map (\<lambda>file. if file_id file = file_id f then f else file) (codeFiles (app w))"
    unfolding notify_three_channels_update[OF assms] by (simp add: on_file_update_def)
  show ?thesis
    unfolding eq using on_file_update_absent[of f "codeFiles (app w)"] by auto
qed

lemma joined_A_live:
  "filter (\<lambda>s. sess_id s = ''A'') (tbl_sessions d) = [sessA] \<Longrightarrow>
   live (joinSession env0 ''A'' (signed_in ''u1'' d)) =
     [MessagesChannel ''A'' ''u1'', FilesChannel ''A'', FileUpdatesChannel ''A'']"
  by (simp add: joinSession_def finish_join_def Let_def fetch_session_def single_row_def env0_def
      signed_in_def initial_world_def initial_app_def sessA_def toast_success_def
      setupRealtimeSubscriptions_def cleanupSubscriptions_def)

lemma joined_A_files:
  "filter (\<lambda>s. sess_id s = ''A'') (tbl_sessions d) = [sessA] \<Longrightarrow>
   codeFiles (app (joinSession env0 ''A'' (signed_in ''u1'' d))) =
     sort_key (\<lambda>f. - file_updated_at f)
       (filter (\<lambda>f. file_session_id f = ''A'') (tbl_code_files d))"
  by (simp add: joinSession_def finish_join_def Let_def fetch_session_def single_row_def env0_def
      signed_in_def initial_world_def initial_app_def sessA_def toast_success_def
      setupRealtimeSubscriptions_def cleanupSubscriptions_def load_code_files_def)

lemma db0_session_A: "filter (\<lambda>s. sess_id s = ''A'') (tbl_sessions db0) = [sessA]"
  by (simp add: db0_def sessA_def sessB_def sessC_def)

lemma db1_session_A: "filter (\<lambda>s. sess_id s = ''A'') (tbl_sessions db1) = [sessA]"
  by (simp add: db1_def db0_def sessA_def sessB_def sessC_def)

text \<open>
  C4 as stated fails: user \<open>u1\<close> has joined session \<open>A\<close>, which has no code file,
  and the update notification for \<open>file1\<close> of that session arrives; no local
  file has its identifier, and the record is not in the collection afterwards.
\<close>

theorem file_update_insert_counterexample:
  "file_id file1 \<notin> file_id ` set (codeFiles (app (joinSession env0 ''A'' (signed_in ''u1'' db0)))) \<and>
   file_session_id file1 = ''A'' \<and>
   live (joinSession env0 ''A'' (signed_in ''u1'' db0)) =
     [MessagesChannel ''A'' ''u1'', FilesChannel ''A'', FileUpdatesChannel ''A''] \<and>
   file1 \<notin> set (codeFiles (app (notify (FileUpdated file1)
                                    (joinSession env0 ''A'' (signed_in ''u1'' db0)))))"
proof -
  let ?w = "joinSession env0 ''A'' (signed_in ''u1'' db0)"
  have l: "live ?w = [MessagesChannel ''A'' ''u1'', FilesChannel ''A'', FileUpdatesChannel ''A'']"
    by (rule joined_A_live[OF db0_session_A])
  have f: "codeFiles (app ?w) = []"
    using joined_A_files[OF db0_session_A] by (simp add: db0_def)
  have s: "file_session_id file1 = ''A''" by (simp add: file1_def)
  have "app (notify (FileUpdated file1) ?w) = on_file_update file1 (app ?w)"
    using l s by (rule notify_three_channels_update)
  then have "codeFiles (app (notify (FileUpdated file1) ?w)) = []"
    using f by (simp add: on_file_update_def)
  with l f s show ?thesis by simp
qed

theorem file_update_replaces_never_inserts_witness:
  "live (joinSession env0 ''A'' (signed_in ''u1'' db1)) =
     [MessagesChannel ''A'' ''u1'', FilesChannel ''A'', FileUpdatesChannel ''A''] \<and>
   file_session_id file1_edited = ''A'' \<and>
   codeFiles (app (joinSession env0 ''A'' (signed_in ''u1'' db1))) = [file1] \<and>
   codeFiles (app (notify (FileUpdated file1_edited)
                     (joinSession env0 ''A'' (signed_in ''u1'' db1)))) = [file1_edited]"
proof -
  let ?w = "joinSession env0 ''A'' (signed_in ''u1'' db1)"
  have l: "live ?w = [MessagesChannel ''A'' ''u1'', FilesChannel ''A'', FileUpdatesChannel ''A'']"
    by (rule joined_A_live[OF db1_session_A])
  have f: "codeFiles (app ?w) = [file1]"
    using joined_A_files[OF db1_session_A] by (simp add: db1_def db0_def file1_def)
  have s: "file_session_id file1_edited = ''A''"
    by (simp add: file1_edited_def file1_def)
  have "file_id file1 = file_id file1_edited"
    by (simp add: file1_edited_def)
  with file_update_replaces_never_inserts[OF l s] f
  have "codeFiles (app (notify (FileUpdated file1_edited) ?w)) = [file1_edited]"
    by simp
  with l s f show ?thesis by simp
qed

section \<open>Messages sent by the local user\<close>

lemma own_message_discarded:
  assumes "\<forall>c \<in> set cs. \<forall>sid u. c = MessagesChannel sid u \<longrightarrow> u = uid"
    and "msg_user_id m = uid"
  shows "fold (\<lambda>c. deliver c (MessageInserted m)) cs a = a"
  using assms
proof (induction cs arbitrary: a)
  case Nil
  then show ?case by simp
next
  case (Cons c cs)
  have "deliver c (MessageInserted m) a = a"
  proof (cases c)
    case (MessagesChannel sid u)
    with Cons.prems have "u = uid" by simp
    with MessagesChannel Cons.prems(2) show ?thesis
      by (simp add: on_new_message_def)
  qed simp_all
  with Cons show ?case by simp
qed

lemma sendMessage_live: "live (sendMessage e content type w) = live w"
  by (simp add: sendMessage_def toast_error_def Let_def split: option.splits)

lemma sendMessage_user_ok:
  assumes "user (app w) = Some uid" "currentSession (app w) = Some s"
    and "message_insert_error e = None"
  shows "messages (app (sendMessage e content UserMsg w)) =
           messages (app w) @ [inserted_message e (sess_id s) uid content UserMsg]"
    and "inserted_message e (sess_id s) uid content UserMsg
           \<in> set (tbl_messages (db (sendMessage e content UserMsg w)))"
  using assms by (simp_all add: sendMessage_def Let_def chat_response_def split: option.splits)

lemma sendMessage_other_kind:
  assumes "type \<noteq> UserMsg"
  shows "messages (app (sendMessage e content type w)) = messages (app w)"
  using assms by (simp add: sendMessage_def toast_error_def Let_def split: option.splits)

lemma count_fresh_appended:
  assumes "msg_id m \<notin> msg_id ` set ms"
  shows "count_list (ms @ [m]) m = 1"
    and "length (filter (\<lambda>x. msg_id x = msg_id m) (ms @ [m])) = 1"
proof -
  from assms have "m \<notin> set ms" by auto
  then show "count_list (ms @ [m]) m = 1"
    by (simp add: count_list_0_iff)
  from assms have "filter (\<lambda>x. msg_id x = msg_id m) ms = []"
    unfolding filter_empty_conv by (metis imageI)
  then show "length (filter (\<lambda>x. msg_id x = msg_id m) (ms @ [m])) = 1"
    by simp
qed

text \<open>
  C2.  The local user \<open>uid\<close> has an active session, every live message channel
  was opened for \<open>uid\<close>, and the store accepts the write and gives the row an
  identifier no local message has.  After \<open>sendMessage\<close> with kind \<open>user\<close> the
  stored record is the last local message, and after the notification for that
  record is delivered the local sequence is still the old one followed by the
  record: it occurs exactly once, and it is the only local message with its
  identifier.
\<close>

theorem self_echo_once:
  fixes e :: env and w :: world and content :: string
  defines "w1 \<equiv> sendMessage e content UserMsg w"
  assumes "user (app w) = Some uid" and "currentSession (app w) = Some s"
    and "message_insert_error e = None"
    and "\<forall>c \<in> set (live w). \<forall>sid u. c = MessagesChannel sid u \<longrightarrow> u = uid"
    and "new_id e \<notin> msg_id ` set (messages (app w))"
  shows "inserted_message e (sess_id s) uid content UserMsg \<in> set (tbl_messages (db w1)) \<and>
         messages (app w1) =
           messages (app w) @ [inserted_message e (sess_id s) uid content UserMsg] \<and>
         messages (app (notify (MessageInserted
             (inserted_message e (sess_id s) uid content UserMsg)) w1)) =
           messages (app w) @ [inserted_message e (sess_id s) uid content UserMsg] \<and>
         count_list
           (messages (app (notify (MessageInserted
               (inserted_message e (sess_id s) uid content UserMsg)) w1)))
           (inserted_message e (sess_id s) uid content UserMsg) = 1 \<and>
         length (filter (\<lambda>x. msg_id x = new_id e)
           (messages (app (notify (MessageInserted
               (inserted_message e (sess_id s) uid content UserMsg)) w1)))) = 1"
proof -
  let ?m = "inserted_message e (sess_id s) uid content UserMsg"
  have id: "msg_id ?m = new_id e" and au: "msg_user_id ?m = uid"
    by (simp_all add: inserted_message_def)
  have stored: "?m \<in> set (tbl_messages (db w1))"
    and local: "messages (app w1) = messages (app w) @ [?m]"
    unfolding w1_def using sendMessage_user_ok[OF assms(2,3,4)] by simp_all
  have "live w1 = live w"
    unfolding w1_def by (rule sendMessage_live)
  with assms(5) have "app (notify (MessageInserted ?m) w1) = app w1"
    by (simp add: notify_def own_message_discarded[OF _ au])
  then have after: "messages (app (notify (MessageInserted ?m) w1)) = messages (app w) @ [?m]"
    using local by simp
  have fresh: "msg_id ?m \<notin> msg_id ` set (messages (app w))"
    using assms(6) id by simp
  show ?thesis
    unfolding after using stored local count_fresh_appended[OF fresh] id by simp
qed

lemma joined_A_facts:
  "user (app joined_A) = Some ''u1''"
  "currentSession (app joined_A) = Some sessA"
  "live joined_A = [MessagesChannel ''A'' ''u1'', FilesChannel ''A'', FileUpdatesChannel ''A'']"
  "messages (app joined_A) = []"
  "tbl_messages (db joined_A) = []"
  "tbl_code_files (db joined_A) = []"
  by (simp_all add: joined_A_def joinSession_def finish_join_def Let_def fetch_session_def single_row_def
      env0_def signed_in_def initial_world_def initial_app_def db0_def sessA_def sessB_def
      sessC_def toast_success_def setupRealtimeSubscriptions_def cleanupSubscriptions_def
      load_messages_def)

theorem self_echo_once_witness:
  "user (app joined_A) = Some ''u1'' \<and> currentSession (app joined_A) = Some sessA \<and>
   message_insert_error env0 = None \<and>
   live joined_A = [MessagesChannel ''A'' ''u1'', FilesChannel ''A'', FileUpdatesChannel ''A''] \<and>
   new_id env0 \<notin> msg_id ` set (messages (app joined_A)) \<and>
   messages (app (notify (MessageInserted (inserted_message env0 ''A'' ''u1'' ''hello'' UserMsg))
                    (sendMessage env0 ''hello'' UserMsg joined_A))) =
     [inserted_message env0 ''A'' ''u1'' ''hello'' UserMsg]"
proof -
  have h4: "message_insert_error env0 = None" by (simp add: env0_def)
  have h5: "\<forall>c \<in> set (live joined_A). \<forall>sid u. c = MessagesChannel sid u \<longrightarrow> u = ''u1''"
    by (simp add: joined_A_facts)
  have h6: "new_id env0 \<notin> msg_id ` set (messages (app joined_A))"
    by (simp add: joined_A_facts)
  have sid: "sess_id sessA = ''A''" by (simp add: sessA_def)
  from self_echo_once[OF joined_A_facts(1,2) h4 h5 h6, of "''hello''"] h4 h6 joined_A_facts sid
  show ?thesis by simp
qed

text \<open>
  C10.  With a user and an active session, and every live message channel
  opened for that user: \<open>sendMessage\<close> with kind \<open>ai\<close> leaves the local messages
  as they were, the notification for the stored record leaves them as they were
  too, so a record with a fresh identifier occurs zero times locally; and the
  fallback generator, which sends its message this way, leaves the local
  messages unchanged as well.
\<close>

theorem ai_message_never_local:
  assumes "user (app w) = Some uid" and "currentSession (app w) = Some s"
    and "\<forall>c \<in> set (live w). \<forall>sid u. c = MessagesChannel sid u \<longrightarrow> u = uid"
    and "new_id e \<notin> msg_id ` set (messages (app w))"
  shows "messages (app (sendMessage e content AiMsg w)) = messages (app w) \<and>
         messages (app (notify (MessageInserted (inserted_message e (sess_id s) uid content AiMsg))
                          (sendMessage e content AiMsg w))) = messages (app w) \<and>
         count_list
           (messages (app (notify (MessageInserted
               (inserted_message e (sess_id s) uid content AiMsg))
               (sendMessage e content AiMsg w))))
           (inserted_message e (sess_id s) uid content AiMsg) = 0 \<and>
         (message_insert_error e = None \<longrightarrow>
            inserted_message e (sess_id s) uid content AiMsg
              \<in> set (tbl_messages (db (sendMessage e content AiMsg w)))) \<and>
         messages (app (generateMockCodeAction e prompt w)) = messages (app w)"
proof -
  let ?m = "inserted_message e (sess_id s) uid content AiMsg"
  let ?w1 = "sendMessage e content AiMsg w"
  have au: "msg_user_id ?m = uid" and id: "msg_id ?m = new_id e"
    by (simp_all add: inserted_message_def)
  have local: "messages (app ?w1) = messages (app w)"
    by (rule sendMessage_other_kind) simp
  have "live ?w1 = live w" by (rule sendMessage_live)
  with assms(3) have "app (notify (MessageInserted ?m) ?w1) = app ?w1"
    by (simp add: notify_def own_message_discarded[OF _ au])
  then have after: "messages (app (notify (MessageInserted ?m) ?w1)) = messages (app w)"
    using local by simp
  have "?m \<notin> set (messages (app w))"
    using assms(4) id by force
  then have zero: "count_list (messages (app w)) ?m = 0"
    by (simp add: count_list_0_iff)
  have stored: "message_insert_error e = None \<longrightarrow> ?m \<in> set (tbl_messages (db ?w1))"
    using assms(1,2) by (simp add: sendMessage_def Let_def)
  have mock: "messages (app (generateMockCodeAction e prompt w)) = messages (app w)"
    using assms(1,2)
    by (simp add: generateMockCodeAction_def Let_def toast_error_def toast_success_def
        sendMessage_other_kind split: option.splits)
  show ?thesis
    unfolding after using local zero stored mock by simp
qed

theorem ai_message_never_local_witness:
  "user (app joined_A) = Some ''u1'' \<and> currentSession (app joined_A) = Some sessA \<and>
   live joined_A = [MessagesChannel ''A'' ''u1'', FilesChannel ''A'', FileUpdatesChannel ''A''] \<and>
   new_id env0 \<notin> msg_id ` set (messages (app joined_A)) \<and>
   inserted_message env0 ''A'' ''u1'' ''done'' AiMsg
     \<in> set (tbl_messages (db (sendMessage env0 ''done'' AiMsg joined_A))) \<and>
   messages (app (notify (MessageInserted (inserted_message env0 ''A'' ''u1'' ''done'' AiMsg))
                    (sendMessage env0 ''done'' AiMsg joined_A))) = []"
proof -
  have h3: "\<forall>c \<in> set (live joined_A). \<forall>sid u. c = MessagesChannel sid u \<longrightarrow> u = ''u1''"
    by (simp add: joined_A_facts)
  have h4: "new_id env0 \<notin> msg_id ` set (messages (app joined_A))"
    by (simp add: joined_A_facts)
  have ok: "message_insert_error env0 = None" by (simp add: env0_def)
  have sid: "sess_id sessA = ''A''" by (simp add: sessA_def)
  from ai_message_never_local[OF joined_A_facts(1,2) h3 h4, of "''done''"] ok h4 joined_A_facts sid
  show ?thesis by simp
qed

section \<open>What a call of the edge function leaves in the store\<close>

text \<open>The row the handler inserts into \<open>code_files\<close> (lines 146-157).\<close>

lemma generate_code_function_early:
  assumes "\<not> groq_api_key g \<or> \<not> req_authorization req \<or> token_user g = None \<or>
           (\<exists>m. generated_code g = Throws m) \<or> (\<exists>m. analysis_response g = Throws m) \<or>
           edge_insert_error g \<noteq> None"
  shows "\<exists>m. generate_code_function g lower req d = (Error500 m, d)"
  using assms
  by (auto simp: generate_code_function_def Let_def
      split: option.splits attempt.splits)

lemma generate_code_function_stores:
  assumes "groq_api_key g" "req_authorization req" "token_user g = Some uid"
    and "generated_code g = Returns code" "analysis_response g = Returns outcome"
    and "edge_insert_error g = None"
  shows "tbl_code_files (snd (generate_code_function g lower req d)) =
           tbl_code_files d @
           [\<lparr>file_id = edge_file_id g, file_session_id = req_session req,
             filename = generateFilename lower (date_now g) (req_prompt req) (req_language req),
             file_content = code, file_language = req_language req,
             file_created_at = edge_now g, file_updated_at = edge_now g,
             health_score = healthScore (to_number_builtin g) outcome,
             issues = (case outcome of Analysis v \<Rightarrow> analysis_issues g | _ \<Rightarrow> [])\<rparr>]"
  using assms
  by (cases "chat_completion g")
     (simp_all add: generate_code_function_def Let_def)

lemma generate_code_function_late:
  assumes "groq_api_key g" "req_authorization req" "token_user g = Some uid"
    and "generated_code g = Returns code" "analysis_response g = Returns outcome"
    and "edge_insert_error g = None" "chat_completion g = ReplyThrows m"
  shows "fst (generate_code_function g lower req d) = Error500 m"
    and "tbl_messages (snd (generate_code_function g lower req d)) = tbl_messages d"
  using assms by (simp_all add: generate_code_function_def Let_def)

lemma generate_code_function_done:
  assumes "groq_api_key g" "req_authorization req" "token_user g = Some uid"
    and "generated_code g = Returns code" "analysis_response g = Returns outcome"
    and "edge_insert_error g = None" "chat_completion g = ReplyNotOk \<or> chat_completion g = ReplyOk c"
  shows "\<exists>f a. fst (generate_code_function g lower req d) = Ok200 f a"
  using assms by (auto simp: generate_code_function_def Let_def)

text \<open>
  generateCode with an authentication session and a reachable function: the store
  afterwards is what the handler left, and after an answer with status 500 the
  fallback then writes to that store.
\<close>

lemma generateCode_invoked:
  assumes "user (app w) = Some uid" "currentSession (app w) = Some s"
    and "auth_session e" "function_unreachable e = None"
    and "generate_code_function (edge e) (toLowerCase e)
           \<lparr>req_prompt = prompt, req_language = language s, req_session = sess_id s,
            req_authorization = True\<rparr> (db w) = (r, d')"
  shows "db (generateCode e prompt w) =
           (case r of
              Ok200 f a \<Rightarrow> d'
            | Error500 m \<Rightarrow>
                db (generateMockCodeAction e prompt
                      (w\<lparr>db := d',
                         app := (app w)\<lparr>isLoading := True, error := Some (non_2xx_message e)\<rparr>\<rparr>)))"
  using assms
  by (cases r)
     (simp_all add: generateCode_def invoke_generate_code_def generation_outcome_def Let_def
        toast_success_def)

lemma generateCode_not_invoked:
  assumes "user (app w) = Some uid" "currentSession (app w) = Some s"
    and "\<not> auth_session e \<or> function_unreachable e \<noteq> None"
  shows "db (generateCode e prompt w) =
           db (generateMockCodeAction e prompt
                 (w\<lparr>app := (app w)\<lparr>isLoading := True,
                      error := Some (if auth_session e then the (function_unreachable e)
                                     else ''No auth session'')\<rparr>\<rparr>))"
proof (cases "auth_session e")
  case False
  with assms(1,2) show ?thesis
    by (simp add: generateCode_def Let_def)
next
  case True
  with assms(3) obtain msg where "function_unreachable e = Some msg" by auto
  with True assms(1,2) show ?thesis
    by (simp add: generateCode_def invoke_generate_code_def generation_outcome_def Let_def)
qed

lemma generateMockCodeAction_db:
  assumes "user (app w) = Some uid" "currentSession (app w) = Some s"
    and "file_insert_error e = None" "message_insert_error e = None"
  shows "tbl_code_files (db (generateMockCodeAction e prompt w)) =
           tbl_code_files (db w) @
           [mock_file e s (generateMockCode (toLowerCase e) prompt (language s))]"
    and "tbl_messages (db (generateMockCodeAction e prompt w)) =
           tbl_messages (db w) @
           [inserted_message e (sess_id s) uid
              (''I've generated '' @
               mock_filename (generateMockCode (toLowerCase e) prompt (language s)) @
               '' for you. The code includes '' @
               mock_description (generateMockCode (toLowerCase e) prompt (language s))) AiMsg]"
  using assms
  by (simp_all add: generateMockCodeAction_def Let_def toast_success_def sendMessage_def)

section \<open>Health scores\<close>

lemma clamp_in_range: "60 \<le> max 60 (min 100 (x::real)) \<and> max 60 (min 100 x) \<le> 100"
  by auto

lemma healthScore_number:
  "healthScore coerce (Analysis (Number x)) = Some (if x = 0 then 85 else max 60 (min 100 x))"
  by (simp add: healthScore_def clamp_score_def)

text \<open>
  The score of the edge function is a number between 60 and 100 whenever it is
  a number, and it is NaN exactly when the analysis has a truthy \<open>healthScore\<close>
  that does not convert to a number.
\<close>

lemma healthScore_in_range_or_nan:
  "healthScore coerce outcome = None \<or>
   (\<exists>h. healthScore coerce outcome = Some h \<and> 60 \<le> h \<and> h \<le> 100)"
proof (cases "healthScore coerce outcome")
  case None
  then show ?thesis by simp
next
  case (Some h)
  then have "60 \<le> h \<and> h \<le> 100"
    by (cases outcome) (auto simp: healthScore_def clamp_score_def split: if_splits)
  with Some show ?thesis by simp
qed

lemma healthScore_nan_iff:
  "healthScore coerce outcome = None \<longleftrightarrow>
   (\<exists>v. outcome = Analysis v \<and> truthy v \<and> to_number coerce v = None)"
  by (cases outcome) (auto simp: healthScore_def clamp_score_def)

lemma healthScore_numeric_in_range:
  assumes "outcome = ResponseNotOk \<or> outcome = AnalysisThrew \<or>
           outcome = Analysis Undefined \<or> outcome = Analysis Null \<or>
           (\<exists>b. outcome = Analysis (Boolean b)) \<or> (\<exists>x. outcome = Analysis (Number x))"
  shows "\<exists>h. healthScore coerce outcome = Some h \<and> 60 \<le> h \<and> h \<le> 100"
  using assms by (auto simp: healthScore_def clamp_score_def)

lemma healthScore_samples:
  "healthScore coerce (Analysis (Number 250)) = Some 100"
  "healthScore coerce (Analysis (Number (- 5))) = Some 60"
  "healthScore coerce (Analysis (Number 0)) = Some 85"
  "healthScore coerce (Analysis Undefined) = Some 85"
  "healthScore coerce AnalysisThrew = Some 85"
  "healthScore coerce ResponseNotOk = Some 85"
  by (simp_all add: healthScore_def clamp_score_def)

text \<open>The score of the fallback, computed in doubles.\<close>

lemma bit_length_bound: "n < 2 ^ k \<Longrightarrow> bit_length n \<le> k"
proof (induction k arbitrary: n)
  case 0
  then have "n \<le> 0" by simp
  then show ?case by (simp add: bit_length.simps)
next
  case (Suc k)
  show ?case
  proof (cases "n \<le> 0")
    case True
    then show ?thesis by (simp add: bit_length.simps)
  next
    case False
    from Suc.prems have "n div 2 < 2 ^ k" by simp
    then have "bit_length (n div 2) \<le> k" by (rule Suc.IH)
    with False show ?thesis by (subst bit_length.simps) simp
  qed
qed

text \<open>Rounding a number below \<open>2 ^ 59\<close> adds at most 32 to it.\<close>

lemma round53_bound:
  assumes "0 \<le> n" and "n < 2 ^ 59" and "round53 n = (q, s)"
  shows "0 \<le> q \<and> q * 2 ^ s \<le> n + 32"
proof (cases "bit_length n \<le> 53")
  case True
  with assms show ?thesis by (simp add: round53_def)
next
  case False
  define t where "t = bit_length n - 53"
  from assms(2) have "bit_length n \<le> 59" by (rule bit_length_bound)
  with False have t: "1 \<le> t" "t \<le> 6" by (simp_all add: t_def)
  define c where
    "c = (if 2 ^ (t - 1) < n mod 2 ^ t \<or> (n mod 2 ^ t = 2 ^ (t - 1) \<and> odd (n div 2 ^ t))
          then n div 2 ^ t + 1 else n div 2 ^ t)"
  have "round53 n = (c, t)"
    using False by (simp add: round53_def Let_def t_def c_def)
  with assms(3) have s: "s = t" and qc: "q = c" by simp_all
  note q = qc [unfolded c_def]
  have n: "n = n div 2 ^ t * 2 ^ t + n mod 2 ^ t" by (rule div_mult_mod_eq [symmetric])
  have d: "0 \<le> n div 2 ^ t" using assms(1) by (simp add: pos_imp_zdiv_nonneg_iff)
  have "(2::int) ^ t = 2 * 2 ^ (t - 1)" using t(1) by (cases t) simp_all
  moreover have "(2::int) ^ (t - 1) \<le> 2 ^ 5" using t(2) by (intro power_increasing) simp_all
  ultimately have h: "(2::int) ^ t \<le> 2 ^ (t - 1) + 32" by simp
  have r: "0 \<le> n mod 2 ^ t" by simp
  show ?thesis
  proof (cases "2 ^ (t - 1) < n mod 2 ^ t \<or> (n mod 2 ^ t = 2 ^ (t - 1) \<and> odd (n div 2 ^ t))")
    case True
    then have q1: "q = n div 2 ^ t + 1" using q by simp
    from True have "2 ^ (t - 1) \<le> n mod 2 ^ t" by auto
    with h have "2 ^ t \<le> n mod 2 ^ t + 32" by linarith
    moreover have "(n div 2 ^ t + 1) * 2 ^ t = n div 2 ^ t * 2 ^ t + 2 ^ t"
      by (simp add: algebra_simps)
    ultimately have "(n div 2 ^ t + 1) * 2 ^ t \<le> n + 32" using n by linarith
    with q1 s d show ?thesis by simp
  next
    case False
    then have q1: "q = n div 2 ^ t" using q by simp
    have "n div 2 ^ t * 2 ^ t \<le> n + 32" using r n by linarith
    with q1 s d show ?thesis by simp
  qed
qed

lemma mock_health_score_range:
  assumes "unit_double r"
  shows "60 \<le> mock_health_score r \<and> mock_health_score r \<le> 99"
proof -
  define m where "m = mantissa r"
  define a where "a = nat (- exponent r)"
  obtain q s where qs: "round53 (m * 40) = (q, s)" by (cases "round53 (m * 40)")
  from assms have m: "0 \<le> m" "m < 2 ^ 53" "m < 2 ^ a" and e: "exponent r = - int a"
    by (simp_all add: unit_double_def m_def a_def)
  have "m * 40 < 2 ^ 53 * 64" using m(2) by simp
  then have n59: "m * 40 < 2 ^ 59" by simp
  have n0: "0 \<le> m * 40" using m(1) by simp
  from round53_bound [OF n0 n59 qs] have q: "0 \<le> q" "q * 2 ^ s \<le> m * 40 + 32" by simp_all
  from m(3) have "m + 1 \<le> 2 ^ a" by simp
  then have "(m + 1) * 40 \<le> 2 ^ a * 40" by (simp only: mult_right_mono)
  with q(2) have lt: "q * 2 ^ s < 40 * 2 ^ a" by (simp add: algebra_simps)
  have fl: "double_floor (double_times r 40) =
              (if a \<le> s then q * 2 ^ (s - a) else q div 2 ^ (a - s))"
    using qs e
    by (simp add: double_floor_def double_times_def m_def [symmetric] nat_diff_distrib'
        nat_int_add)
  have "0 \<le> double_floor (double_times r 40) \<and> double_floor (double_times r 40) < 40"
  proof (cases "a \<le> s")
    case True
    then have "s = (s - a) + a" by simp
    then have "(2::int) ^ s = 2 ^ (s - a) * 2 ^ a" by (metis power_add)
    with lt have "(q * 2 ^ (s - a)) * 2 ^ a < 40 * 2 ^ a" by (simp add: mult.assoc)
    then have "q * 2 ^ (s - a) < 40" by simp
    with True q(1) fl show ?thesis by simp
  next
    case False
    then have "a = (a - s) + s" by simp
    then have "(2::int) ^ a = 2 ^ (a - s) * 2 ^ s" by (metis power_add)
    with lt have "q * 2 ^ s < (40 * 2 ^ (a - s)) * 2 ^ s" by (simp add: mult.assoc)
    then have "q < 40 * 2 ^ (a - s)" by simp
    moreover have "q = q div 2 ^ (a - s) * 2 ^ (a - s) + q mod 2 ^ (a - s)"
      by (rule div_mult_mod_eq [symmetric])
    moreover have "0 \<le> q mod 2 ^ (a - s)" by simp
    ultimately have "q div 2 ^ (a - s) * 2 ^ (a - s) < 40 * 2 ^ (a - s)" by linarith
    then have "q div 2 ^ (a - s) < 40" by simp
    moreover have "0 \<le> q div 2 ^ (a - s)" using q(1) by (simp add: pos_imp_zdiv_nonneg_iff)
    ultimately show ?thesis using False fl by simp
  qed
  then show ?thesis by (simp add: mock_health_score_def)
qed

text \<open>
  At 0.5 the product is exact; at 0.7 it is 27.999999999999996 in the reals and
  rounds to the double 28.
\<close>

lemma mock_health_score_half: "mock_health_score double_half = 80"
  by (simp add: mock_health_score_def double_floor_def double_times_def round53_def
      double_half_def Let_def bit_length.simps)

lemma bit_length_sample: "bit_length 252201579132747760 = 58"
  by (simp add: bit_length.simps)

lemma mock_health_score_seven_tenths: "mock_health_score double_seven_tenths = 88"
  by (simp add: mock_health_score_def double_floor_def double_times_def round53_def
      double_seven_tenths_def Let_def bit_length_sample)

lemma mock_file_score:
  assumes "unit_double (math_random e)"
  shows "\<exists>h. health_score (mock_file e s mockCode) = Some h \<and> 60 \<le> h \<and> h \<le> 99"
proof -
  from mock_health_score_range [OF assms]
  have "(60::real) \<le> of_int (mock_health_score (math_random e))"
    and "of_int (mock_health_score (math_random e)) \<le> (99::real)"
    by simp_all
  then show ?thesis by (simp add: mock_file_def)
qed

text \<open>The request generateCode sends for the prompt "build a todo app" in session \<open>A\<close>.\<close>

lemma todo_prompt: "ascii_lower ''build a todo app'' = ''build a todo app''"
  by (simp add: ascii_lower_def)

lemma todo_filename:
  "generateFilename ascii_lower t ''build a todo app'' JavaScript = ''todo-app.js''"
  by (simp add: generateFilename_def Let_def todo_prompt)

lemma joined_A_db_files: "tbl_code_files (db joined_A) = []"
  by (rule joined_A_facts(6))

text \<open>
  C8.  The code at an analysis whose \<open>healthScore\<close> is the string "high": the
  user \<open>u1\<close> generates code in session \<open>A\<close>, every request of the edge function
  is answered and the store accepts its rows.  The string is truthy and converts
  to NaN, \<open>Math.min\<close> and \<open>Math.max\<close> keep NaN, and the one file stored,
  \<open>todo-app.js\<close>, has no number as its health score: the score was neither
  clamped nor replaced by the default.
\<close>

theorem health_score_text_not_clamped:
  "analysis_response (edge env_score_text) = Returns (Analysis (String ''high'')) \<and>
   truthy (String ''high'') \<and>
   to_number (to_number_builtin (edge env_score_text)) (String ''high'') = None \<and>
   healthScore (to_number_builtin (edge env_score_text)) (Analysis (String ''high'')) = None \<and>
   map filename (tbl_code_files (db (generateCode env_score_text ''build a todo app'' joined_A))) =
     [''todo-app.js''] \<and>
   map health_score
     (tbl_code_files (db (generateCode env_score_text ''build a todo app'' joined_A))) = [None]"
proof -
  let ?g = "edge env_score_text"
  let ?req = "\<lparr>req_prompt = ''build a todo app'', req_language = language sessA,
               req_session = sess_id sessA, req_authorization = True\<rparr>"
  obtain r d' where run:
    "generate_code_function ?g (toLowerCase env_score_text) ?req (db joined_A) = (r, d')"
    by (cases "generate_code_function ?g (toLowerCase env_score_text) ?req (db joined_A)")
  have g: "groq_api_key ?g" "token_user ?g = Some ''u1''" "generated_code ?g = Returns ''// todo''"
    "analysis_response ?g = Returns (Analysis (String ''high''))" "edge_insert_error ?g = None"
    "chat_completion ?g = ReplyNotOk \<or> chat_completion ?g = ReplyOk (Some ''Done.'')"
    by (simp_all add: env_score_text_def env0_def edge0_def)
  have e: "auth_session env_score_text" "function_unreachable env_score_text = None"
    "toLowerCase env_score_text = ascii_lower"
    by (simp_all add: env_score_text_def env0_def)
  have rq: "req_authorization ?req" by simp
  have nan: "to_number (to_number_builtin ?g) (String ''high'') = None"
    by (simp add: env_score_text_def env0_def edge0_def)
  then have score: "healthScore (to_number_builtin ?g) (Analysis (String ''high'')) = None"
    by (simp add: healthScore_def clamp_score_def)
  from generate_code_function_done [OF g(1) rq g(2,3,4,5,6)]
  obtain f a where "fst (generate_code_function ?g (toLowerCase env_score_text) ?req (db joined_A)) =
      Ok200 f a"
    by blast
  with run have r: "r = Ok200 f a" by simp
  have "db (generateCode env_score_text ''build a todo app'' joined_A) = d'"
    using generateCode_invoked [OF joined_A_facts(1,2) e(1,2) run] r by simp
  moreover have "d' = snd (generate_code_function ?g (toLowerCase env_score_text) ?req (db joined_A))"
    using run by simp
  ultimately have "tbl_code_files (db (generateCode env_score_text ''build a todo app'' joined_A)) =
      tbl_code_files (db joined_A) @
      [\<lparr>file_id = edge_file_id ?g, file_session_id = req_session ?req,
        filename = generateFilename (toLowerCase env_score_text) (date_now ?g)
                     (req_prompt ?req) (req_language ?req),
        file_content = ''// todo'', file_language = req_language ?req,
        file_created_at = edge_now ?g, file_updated_at = edge_now ?g,
        health_score = healthScore (to_number_builtin ?g) (Analysis (String ''high'')),
        issues = (case Analysis (String ''high'') of
                    Analysis v \<Rightarrow> analysis_issues ?g | _ \<Rightarrow> [])\<rparr>]"
    using generate_code_function_stores [OF g(1) rq g(2,3,4,5)] by simp
  then have files:
    "map filename (tbl_code_files (db (generateCode env_score_text ''build a todo app'' joined_A))) =
       [''todo-app.js'']"
    "map health_score
       (tbl_code_files (db (generateCode env_score_text ''build a todo app'' joined_A))) = [None]"
    using score by (simp_all add: joined_A_db_files e(3) sessA_def todo_filename)
  from g(4) nan score files show ?thesis by simp
qed

section \<open>The fallback of generateCode\<close>

text \<open>\<open>includes\<close> is the test for a contiguous run.\<close>

lemma str_includes_sublist: "str_includes s k \<longleftrightarrow> sublist k s"
  by (induction s) (simp_all add: sublist_Cons_right)

lemma str_includes_iff: "str_includes s k \<longleftrightarrow> (\<exists>a b. s = a @ k @ b)"
  by (simp add: str_includes_sublist sublist_def)

text \<open>
  The choice of the template on sample prompts: "todo" and "task" come first,
  then "calculator" and "math", and capitals count as small letters.
\<close>

lemma generateMockCode_samples:
  "mock_filename (generateMockCode ascii_lower ''build a todo app'' JavaScript) = ''TodoApp.js''"
  "mock_filename (generateMockCode ascii_lower ''My TASK list'' Python) = ''todo_app.py''"
  "mock_filename (generateMockCode ascii_lower ''a Calculator'' JavaScript) = ''Calculator.js''"
  "mock_filename (generateMockCode ascii_lower ''do the math'' Python) = ''calculator.py''"
  "mock_filename (generateMockCode ascii_lower ''math for a todo list'' Python) = ''todo_app.py''"
  "mock_filename (generateMockCode ascii_lower ''hello world'' JavaScript) = ''app.js''"
  "mock_filename (generateMockCode ascii_lower ''to do'' Python) = ''app.py''"
  "mock_content (generateMockCode ascii_lower ''My TASK list'' Python) = todo_py_template"
  "mock_content (generateMockCode ascii_lower ''a Calculator'' JavaScript) = calculator_js_template"
  "mock_content (generateMockCode ascii_lower ''hello world'' JavaScript) = generic_js_template"
  by (simp_all add: generateMockCode_def Let_def ascii_lower_def)

lemma generateMockCode_todo_app:
  assumes "lower ''build a todo app'' = ''build a todo app''"
  shows "generateMockCode lower ''build a todo app'' lng =
     \<lparr>mock_filename = (if lng = JavaScript then ''TodoApp.js'' else ''todo_app.py''),
      mock_content = (if lng = JavaScript then todo_js_template else todo_py_template),
      mock_description =
        ''a complete todo management system with add, toggle, delete, and filter functionality'',
      mock_issues = []\<rparr>"
  by (simp add: generateMockCode_def Let_def assms)

text \<open>
  The fallback after a call that failed and left nothing in the store: there is
  no authentication session, or the function cannot be reached, or the handler
  answers with status 500 before its insert into \<open>code_files\<close> (see
  \<open>generate_code_function_early\<close>).  With a store that accepts the two writes of
  the fallback, a \<open>toLowerCase\<close> that leaves the prompt "build a todo app" as it
  is, and \<open>Math.random()\<close> in [0,1), generateCode adds exactly one row to
  \<open>code_files\<close>, named and filled from the todo template of the session's
  language, with a health score between 60 and 99, and exactly one row to
  \<open>messages\<close>, of kind \<open>ai\<close>.
\<close>

lemma generateCode_fallback_single_file:
  fixes e :: env and w :: world
  defines "w' \<equiv> generateCode e ''build a todo app'' w"
  assumes "user (app w) = Some uid" and "currentSession (app w) = Some s"
    and failed: "\<not> auth_session e \<or> function_unreachable e \<noteq> None \<or>
           (\<exists>m. generate_code_function (edge e) (toLowerCase e)
                  \<lparr>req_prompt = ''build a todo app'', req_language = language s,
                   req_session = sess_id s, req_authorization = True\<rparr> (db w) =
                (Error500 m, db w))"
    and "file_insert_error e = None" and "message_insert_error e = None"
    and lower: "toLowerCase e ''build a todo app'' = ''build a todo app''"
    and "unit_double (math_random e)"
  shows "\<exists>f m h. tbl_code_files (db w') = tbl_code_files (db w) @ [f] \<and>
            file_session_id f = sess_id s \<and>
            filename f = (if language s = JavaScript then ''TodoApp.js'' else ''todo_app.py'') \<and>
            file_content f =
              (if language s = JavaScript then todo_js_template else todo_py_template) \<and>
            health_score f = Some h \<and> 60 \<le> h \<and> h \<le> 100 \<and>
            tbl_messages (db w') = tbl_messages (db w) @ [m] \<and>
            msg_session_id m = sess_id s \<and> msg_type m = AiMsg"
proof -
  let ?mc = "generateMockCode (toLowerCase e) ''build a todo app'' (language s)"
  let ?f = "mock_file e s ?mc"
  let ?m = "inserted_message e (sess_id s) uid
              (''I've generated '' @ mock_filename ?mc @ '' for you. The code includes '' @
               mock_description ?mc) AiMsg"
  have "\<exists>w0. db w' = db (generateMockCodeAction e ''build a todo app'' w0) \<and>
          user (app w0) = Some uid \<and> currentSession (app w0) = Some s \<and> db w0 = db w"
  proof (cases "\<not> auth_session e \<or> function_unreachable e \<noteq> None")
    case True
    let ?w0 = "w\<lparr>app := (app w)\<lparr>isLoading := True,
                 error := Some (if auth_session e then the (function_unreachable e)
                                else ''No auth session'')\<rparr>\<rparr>"
    have "db w' = db (generateMockCodeAction e ''build a todo app'' ?w0)"
      unfolding w'_def by (rule generateCode_not_invoked [OF assms(2,3) True])
    moreover have "user (app ?w0) = Some uid" "currentSession (app ?w0) = Some s" "db ?w0 = db w"
      using assms(2,3) by simp_all
    ultimately show ?thesis by blast
  next
    case False
    with failed obtain m where run:
      "generate_code_function (edge e) (toLowerCase e)
         \<lparr>req_prompt = ''build a todo app'', req_language = language s,
          req_session = sess_id s, req_authorization = True\<rparr> (db w) = (Error500 m, db w)"
      by blast
    let ?w0 = "w\<lparr>db := db w,
                 app := (app w)\<lparr>isLoading := True, error := Some (non_2xx_message e)\<rparr>\<rparr>"
    from False have a: "auth_session e" "function_unreachable e = None" by simp_all
    have "db w' = db (generateMockCodeAction e ''build a todo app'' ?w0)"
      unfolding w'_def using generateCode_invoked [OF assms(2,3) a run] by simp
    moreover have "user (app ?w0) = Some uid" "currentSession (app ?w0) = Some s" "db ?w0 = db w"
      using assms(2,3) by simp_all
    ultimately show ?thesis by blast
  qed
  then obtain w0 where d: "db w' = db (generateMockCodeAction e ''build a todo app'' w0)"
    and u0: "user (app w0) = Some uid" "currentSession (app w0) = Some s"
    and d0: "db w0 = db w"
    by blast
  have files: "tbl_code_files (db w') = tbl_code_files (db w) @ [?f]"
    unfolding d generateMockCodeAction_db(1)[OF u0 assms(5,6)] d0 ..
  have msgs: "tbl_messages (db w') = tbl_messages (db w) @ [?m]"
    unfolding d generateMockCodeAction_db(2)[OF u0 assms(5,6)] d0 ..
  from mock_file_score [OF assms(8)]
  obtain h where hs: "health_score ?f = Some h" "60 \<le> h" "h \<le> 100"
    by fastforce
  have f: "file_session_id ?f = sess_id s"
    "filename ?f = (if language s = JavaScript then ''TodoApp.js'' else ''todo_app.py'')"
    "file_content ?f = (if language s = JavaScript then todo_js_template else todo_py_template)"
    by (simp_all add: mock_file_def
        generateMockCode_todo_app [where lower = "toLowerCase e", OF lower])
  have m: "msg_session_id ?m = sess_id s" "msg_type ?m = AiMsg"
    by (simp_all add: inserted_message_def)
  from files msgs hs f m show ?thesis by blast
qed

lemma generateCode_fallback_sample:
  "map filename (tbl_code_files (db (generateCode env0 ''build a todo app'' joined_A))) =
     [''TodoApp.js''] \<and>
   map file_content (tbl_code_files (db (generateCode env0 ''build a todo app'' joined_A))) =
     [todo_js_template] \<and>
   map health_score (tbl_code_files (db (generateCode env0 ''build a todo app'' joined_A))) =
     [Some 80] \<and>
   map msg_type (tbl_messages (db (generateCode env0 ''build a todo app'' joined_A))) = [AiMsg]"
proof -
  let ?w0 = "joined_A\<lparr>db := db joined_A,
               app := (app joined_A)\<lparr>isLoading := True, error := Some (non_2xx_message env0)\<rparr>\<rparr>"
  have a: "auth_session env0" "function_unreachable env0 = None"
    "file_insert_error env0 = None" "message_insert_error env0 = None"
    "toLowerCase env0 = ascii_lower" "math_random env0 = double_half"
    by (simp_all add: env0_def)
  have "\<not> groq_api_key (edge env0)" by (simp add: env0_def edge0_def)
  then have run: "generate_code_function (edge env0) (toLowerCase env0)
         \<lparr>req_prompt = ''build a todo app'', req_language = language sessA,
          req_session = sess_id sessA, req_authorization = True\<rparr> (db joined_A) =
       (Error500 ''GROQ_API_KEY not configured'', db joined_A)"
    by (simp add: generate_code_function_def)
  have d: "db (generateCode env0 ''build a todo app'' joined_A) =
      db (generateMockCodeAction env0 ''build a todo app'' ?w0)"
    using generateCode_invoked [OF joined_A_facts(1,2) a(1,2) run] by simp
  have u0: "user (app ?w0) = Some ''u1''" "currentSession (app ?w0) = Some sessA"
    using joined_A_facts(1,2) by simp_all
  have mc: "generateMockCode ascii_lower ''build a todo app'' (language sessA) =
      \<lparr>mock_filename = ''TodoApp.js'', mock_content = todo_js_template,
       mock_description =
         ''a complete todo management system with add, toggle, delete, and filter functionality'',
       mock_issues = []\<rparr>"
    using generateMockCode_todo_app [where lower = ascii_lower and lng = "language sessA", OF todo_prompt]
    by (simp add: sessA_def)
  show ?thesis
    unfolding d generateMockCodeAction_db [OF u0 a(3,4)] a(5) mc
    by (simp add: joined_A_facts mock_file_def inserted_message_def a(6) mock_health_score_half)
qed

text \<open>
  C9.  The code at a call that fails late: user \<open>u1\<close> asks for "build a todo app"
  in session \<open>A\<close> (JavaScript, no files yet); the edge function generates the
  code, stores it as \<open>todo-app.js\<close>, and then its request for the chat reply
  throws, so it answers with status 500.  The client falls back and stores
  \<open>TodoApp.js\<close>.  The store then holds two new files, not one: the file of the
  failed call and the file of the fallback.
\<close>

theorem generateCode_late_failure_second_file:
  "user (app joined_A) = Some ''u1'' \<and> currentSession (app joined_A) = Some sessA \<and>
   tbl_code_files (db joined_A) = [] \<and>
   fst (generate_code_function (edge env_late_failure) (toLowerCase env_late_failure)
          \<lparr>req_prompt = ''build a todo app'', req_language = language sessA,
           req_session = sess_id sessA, req_authorization = True\<rparr> (db joined_A)) =
     Error500 ''fetch failed'' \<and>
   map filename
     (tbl_code_files (db (generateCode env_late_failure ''build a todo app'' joined_A))) =
     [''todo-app.js'', ''TodoApp.js''] \<and>
   map health_score
     (tbl_code_files (db (generateCode env_late_failure ''build a todo app'' joined_A))) =
     [Some 92, Some 80] \<and>
   map msg_type (tbl_messages (db (generateCode env_late_failure ''build a todo app'' joined_A))) =
     [AiMsg]"
proof -
  let ?e = "env_late_failure"
  let ?g = "edge env_late_failure"
  let ?req = "\<lparr>req_prompt = ''build a todo app'', req_language = language sessA,
               req_session = sess_id sessA, req_authorization = True\<rparr>"
  obtain r d' where run: "generate_code_function ?g (toLowerCase ?e) ?req (db joined_A) = (r, d')"
    by (cases "generate_code_function ?g (toLowerCase ?e) ?req (db joined_A)")
  have g: "groq_api_key ?g" "token_user ?g = Some ''u1''" "generated_code ?g = Returns ''// todo''"
    "analysis_response ?g = Returns (Analysis (Number 92))" "edge_insert_error ?g = None"
    "chat_completion ?g = ReplyThrows ''fetch failed''"
    by (simp_all add: env_late_failure_def env0_def edge0_def)
  have a: "auth_session ?e" "function_unreachable ?e = None"
    "file_insert_error ?e = None" "message_insert_error ?e = None"
    "toLowerCase ?e = ascii_lower" "math_random ?e = double_half"
    by (simp_all add: env_late_failure_def env0_def)
  have rq: "req_authorization ?req" by simp
  have failed: "fst (generate_code_function ?g (toLowerCase ?e) ?req (db joined_A)) =
      Error500 ''fetch failed''"
    by (rule generate_code_function_late(1) [OF g(1) rq g(2,3,4,5,6)])
  with run have r: "r = Error500 ''fetch failed''" by simp
  have d': "d' = snd (generate_code_function ?g (toLowerCase ?e) ?req (db joined_A))"
    using run by simp
  have files': "map filename (tbl_code_files d') = [''todo-app.js'']"
    "map health_score (tbl_code_files d') = [Some 92]"
    unfolding d' generate_code_function_stores [OF g(1) rq g(2,3,4,5)]
    by (simp_all add: joined_A_db_files a(5) sessA_def todo_filename healthScore_def
        clamp_score_def)
  have msgs': "tbl_messages d' = []"
    unfolding d' generate_code_function_late(2) [OF g(1) rq g(2,3,4,5,6)]
    by (rule joined_A_facts(5))
  let ?w0 = "joined_A\<lparr>db := d',
               app := (app joined_A)\<lparr>isLoading := True, error := Some (non_2xx_message ?e)\<rparr>\<rparr>"
  have d: "db (generateCode ?e ''build a todo app'' joined_A) =
      db (generateMockCodeAction ?e ''build a todo app'' ?w0)"
    using generateCode_invoked [OF joined_A_facts(1,2) a(1,2) run] r by simp
  have u0: "user (app ?w0) = Some ''u1''" "currentSession (app ?w0) = Some sessA"
    using joined_A_facts(1,2) by simp_all
  have mc: "generateMockCode ascii_lower ''build a todo app'' (language sessA) =
      \<lparr>mock_filename = ''TodoApp.js'', mock_content = todo_js_template,
       mock_description =
         ''a complete todo management system with add, toggle, delete, and filter functionality'',
       mock_issues = []\<rparr>"
    using generateMockCode_todo_app [where lower = ascii_lower and lng = "language sessA", OF todo_prompt]
    by (simp add: sessA_def)
  have after:
    "map filename (tbl_code_files (db (generateCode ?e ''build a todo app'' joined_A))) =
       [''todo-app.js'', ''TodoApp.js'']"
    "map health_score (tbl_code_files (db (generateCode ?e ''build a todo app'' joined_A))) =
       [Some 92, Some 80]"
    "map msg_type (tbl_messages (db (generateCode ?e ''build a todo app'' joined_A))) = [AiMsg]"
    unfolding d generateMockCodeAction_db [OF u0 a(3,4)] a(5) mc
    by (simp_all add: files' msgs' mock_file_def inserted_message_def a(6) mock_health_score_half)
  from joined_A_facts(1,2) joined_A_db_files failed after show ?thesis by simp
qed

section \<open>What the subscription actions leave alone\<close>

lemma cleanupSubscriptions_frame [simp]:
  "app (cleanupSubscriptions w) = app w"
  "db (cleanupSubscriptions w) = db w"
  "toasts (cleanupSubscriptions w) = toasts w"
  by (simp_all add: cleanupSubscriptions_def split: option.splits)

lemma setupRealtimeSubscriptions_frame [simp]:
  "app (setupRealtimeSubscriptions w) = app w"
  "db (setupRealtimeSubscriptions w) = db w"
  "toasts (setupRealtimeSubscriptions w) = toasts w"
  by (simp_all add: setupRealtimeSubscriptions_def Let_def split: option.splits)

lemma cleanupSubscriptions_app_update:
  "cleanupSubscriptions (w\<lparr>app := a\<rparr>) = (cleanupSubscriptions w)\<lparr>app := a\<rparr>"
  by (simp add: cleanupSubscriptions_def split: option.splits)

lemma cleanupSubscriptions_db_update:
  "cleanupSubscriptions (w\<lparr>db := d\<rparr>) = (cleanupSubscriptions w)\<lparr>db := d\<rparr>"
  by (simp add: cleanupSubscriptions_def split: option.splits)

lemma setupRealtimeSubscriptions_channels:
  assumes "currentSession (app w) = Some s" "user (app w) = Some uid"
  shows "live (setupRealtimeSubscriptions w) =
           live (cleanupSubscriptions w) @
           [MessagesChannel (sess_id s) uid, FilesChannel (sess_id s),
            FileUpdatesChannel (sess_id s)]"
    and "window_subs (setupRealtimeSubscriptions w) =
           Some [MessagesChannel (sess_id s) uid, FilesChannel (sess_id s),
                 FileUpdatesChannel (sess_id s)]"
  using assms by (simp_all add: setupRealtimeSubscriptions_def Let_def)

lemma cleanupSubscriptions_twice [simp]:
  "live (cleanupSubscriptions (cleanupSubscriptions w)) = live (cleanupSubscriptions w)"
  by (simp add: cleanupSubscriptions_def split: option.splits)

section \<open>The two outcomes of joinSession\<close>

lemma joinSession_signed_out:
  "user (app w) = None \<Longrightarrow>
   joinSession e sid w = toast_error ''You must be logged in to join a session'' w"
  by (simp add: joinSession_def finish_join_def)

lemma join_decision_cases:
  obtains (refused) msg where "join_decision e d sid uid = Inl msg"
  | (admitted) s where "join_decision e d sid uid = Inr s"
  by (cases "join_decision e d sid uid") auto

lemma join_decision_admitted:
  assumes "join_decision e d sid uid = Inr s"
  shows "fetch_session e d sid = (Some s, False)"
    and "owner_id s = uid \<or> is_public s \<or> participant_check e d sid uid \<noteq> None"
proof -
  obtain data err where f: "fetch_session e d sid = (data, err)"
    by (cases "fetch_session e d sid")
  show "fetch_session e d sid = (Some s, False)"
    using assms f by (cases err; cases data) (simp_all add: join_decision_def split: if_splits)
  then show "owner_id s = uid \<or> is_public s \<or> participant_check e d sid uid \<noteq> None"
    using assms by (simp add: join_decision_def split: if_splits)
qed

lemma joinSession_refused:
  assumes "user (app w) = Some uid" "join_decision e (db w) sid uid = Inl msg"
  shows "joinSession e sid w =
         join_failed msg (w\<lparr>app := (app w)\<lparr>isLoading := True, error := None\<rparr>\<rparr>)"
proof -
  obtain data err where f: "fetch_session e (db w) sid = (data, err)"
    by (cases "fetch_session e (db w) sid")
  show ?thesis
    using assms f
    by (cases err; cases data)
       (simp_all add: joinSession_def finish_join_def join_decision_def Let_def split: if_splits)
qed

lemma joinSession_admitted:
  assumes "user (app w) = Some uid" "join_decision e (db w) sid uid = Inr s"
  shows "app (joinSession e sid w) = join_state e sid s (join_store e sid uid s (db w)) (app w)"
    and "db (joinSession e sid w) = join_store e sid uid s (db w)"
    and "live (joinSession e sid w) =
           live (cleanupSubscriptions w) @
           [MessagesChannel (sess_id s) uid, FilesChannel (sess_id s),
            FileUpdatesChannel (sess_id s)]"
    and "window_subs (joinSession e sid w) =
           Some [MessagesChannel (sess_id s) uid, FilesChannel (sess_id s),
                 FileUpdatesChannel (sess_id s)]"
    and "toasts (joinSession e sid w) =
           toasts w @ [ToastSuccess (''Joined session: '' @ sess_name s)]"
proof -
  note d = join_decision_admitted[OF assms(2)]
  let ?w1 = "w\<lparr>app := (app w)\<lparr>isLoading := True, error := None\<rparr>\<rparr>"
  let ?w2 = "if owner_id s \<noteq> uid
             then ?w1\<lparr>db := upsert_participant e sid uid (db ?w1)\<rparr> else ?w1"
  let ?w4 = "(cleanupSubscriptions ?w2)\<lparr>app := (app (cleanupSubscriptions ?w2))
               \<lparr>currentSession := Some s, messages := load_messages e (db ?w2) sid,
                codeFiles := load_code_files e (db ?w2) sid,
                sessionParticipants := load_participants e (db ?w2) sid,
                isLoading := False, error := None\<rparr>\<rparr>"
  from d(2) consider (own) "owner_id s = uid" | (pub) "is_public s"
    | (mem) y where "participant_check e (db w) sid uid = Some y"
    by auto
  then have j: "joinSession e sid w =
      toast_success (''Joined session: '' @ sess_name s) (setupRealtimeSubscriptions ?w4)"
    using assms(1) d(1) by cases (simp_all add: joinSession_def finish_join_def Let_def)
  have cs: "currentSession (app ?w4) = Some s" "user (app ?w4) = Some uid"
    using assms(1) by simp_all
  have lc: "live (cleanupSubscriptions ?w4) = live (cleanupSubscriptions w)"
    by (simp add: cleanupSubscriptions_app_update cleanupSubscriptions_db_update)
  show "app (joinSession e sid w) = join_state e sid s (join_store e sid uid s (db w)) (app w)"
    unfolding j by (simp add: toast_success_def join_state_def join_store_def)
  show "db (joinSession e sid w) = join_store e sid uid s (db w)"
    unfolding j by (simp add: toast_success_def join_store_def)
  show "live (joinSession e sid w) =
      live (cleanupSubscriptions w) @
      [MessagesChannel (sess_id s) uid, FilesChannel (sess_id s), FileUpdatesChannel (sess_id s)]"
    unfolding j using setupRealtimeSubscriptions_channels(1)[OF cs] lc
    by (simp add: toast_success_def)
  show "window_subs (joinSession e sid w) =
      Some [MessagesChannel (sess_id s) uid, FilesChannel (sess_id s),
            FileUpdatesChannel (sess_id s)]"
    unfolding j using setupRealtimeSubscriptions_channels(2)[OF cs]
    by (simp add: toast_success_def)
  show "toasts (joinSession e sid w) =
      toasts w @ [ToastSuccess (''Joined session: '' @ sess_name s)]"
    unfolding j by (simp add: toast_success_def)
qed

section \<open>Idempotent join\<close>

lemma upsert_other_tables [simp]:
  "tbl_sessions (upsert_participant e sid uid d) = tbl_sessions d"
  "tbl_messages (upsert_participant e sid uid d) = tbl_messages d"
  "tbl_code_files (upsert_participant e sid uid d) = tbl_code_files d"
  by (simp_all add: upsert_participant_def split: option.splits)

lemma filter_pair_after_role:
  "filter (\<lambda>p. part_session_id p = sid \<and> part_user_id p = uid)
     (map (\<lambda>p. if part_session_id p = sid \<and> part_user_id p = uid
               then p\<lparr>part_role := Developer\<rparr> else p) rows) =
   map (\<lambda>p. p\<lparr>part_role := Developer\<rparr>)
     (filter (\<lambda>p. part_session_id p = sid \<and> part_user_id p = uid) rows)"
  by (induction rows) auto

lemma role_twice:
  "map (\<lambda>p. if part_session_id p = sid \<and> part_user_id p = uid
             then p\<lparr>part_role := Developer\<rparr> else p)
     (map (\<lambda>p. if part_session_id p = sid \<and> part_user_id p = uid
               then p\<lparr>part_role := Developer\<rparr> else p) rows) =
   map (\<lambda>p. if part_session_id p = sid \<and> part_user_id p = uid
             then p\<lparr>part_role := Developer\<rparr> else p) rows"
  by (induction rows) auto

lemma role_no_row:
  "filter (\<lambda>p. part_session_id p = sid \<and> part_user_id p = uid) rows = [] \<Longrightarrow>
   map (\<lambda>p. if part_session_id p = sid \<and> part_user_id p = uid
             then p\<lparr>part_role := Developer\<rparr> else p) rows = rows"
  by (induction rows) (auto split: if_splits)

lemma upsert_participant_rows:
  "filter (\<lambda>p. part_session_id p = sid \<and> part_user_id p = uid)
     (tbl_session_participants (upsert_participant e sid uid d)) =
   (case upsert_error e of
      Some msg \<Rightarrow>
        filter (\<lambda>p. part_session_id p = sid \<and> part_user_id p = uid) (tbl_session_participants d)
    | None \<Rightarrow>
        if filter (\<lambda>p. part_session_id p = sid \<and> part_user_id p = uid)
             (tbl_session_participants d) = []
        then [\<lparr>part_id = new_id e, part_session_id = sid, part_user_id = uid,
               part_role = Developer, joined_at = now e, last_active = now e\<rparr>]
        else map (\<lambda>p. p\<lparr>part_role := Developer\<rparr>)
               (filter (\<lambda>p. part_session_id p = sid \<and> part_user_id p = uid)
                  (tbl_session_participants d)))"
  by (simp add: upsert_participant_def filter_pair_after_role split: option.splits)

lemma upsert_participant_count:
  assumes "length (filter (\<lambda>p. part_session_id p = sid \<and> part_user_id p = uid)
             (tbl_session_participants d)) \<le> 1"
  shows "length (filter (\<lambda>p. part_session_id p = sid \<and> part_user_id p = uid)
           (tbl_session_participants (upsert_participant e sid uid d))) \<le> 1"
  using assms unfolding upsert_participant_rows by (simp split: option.splits)

lemma upsert_participant_idempotent:
  assumes "upsert_error e' = upsert_error e"
  shows "upsert_participant e' sid uid (upsert_participant e sid uid d) =
         upsert_participant e sid uid d"
proof (cases "upsert_error e")
  case (Some msg)
  with assms show ?thesis by (simp add: upsert_participant_def)
next
  case None
  let ?P = "\<lambda>p. part_session_id p = sid \<and> part_user_id p = uid"
  show ?thesis
  proof (cases "filter ?P (tbl_session_participants d) = []")
    case True
    with None assms show ?thesis
      by (simp add: upsert_participant_def role_no_row)
  next
    case False
    then have "filter ?P (map (\<lambda>p. if ?P p then p\<lparr>part_role := Developer\<rparr> else p)
        (tbl_session_participants d)) \<noteq> []"
      unfolding filter_pair_after_role by simp
    with False None assms show ?thesis
      by (simp add: upsert_participant_def role_twice)
  qed
qed

lemma join_store_count:
  assumes "length (filter (\<lambda>p. part_session_id p = sid \<and> part_user_id p = uid)
             (tbl_session_participants d)) \<le> 1"
  shows "length (filter (\<lambda>p. part_session_id p = sid \<and> part_user_id p = uid)
           (tbl_session_participants (join_store e sid uid s d))) \<le> 1"
  using assms upsert_participant_count[OF assms] by (simp add: join_store_def)

lemma joinSession_user [simp]: "user (app (joinSession e sid w)) = user (app w)"
proof (cases "user (app w)")
  case None
  then show ?thesis by (simp add: joinSession_signed_out toast_error_def)
next
  case (Some uid)
  show ?thesis
  proof (cases rule: join_decision_cases[of e "db w" sid uid])
    case (refused msg)
    then show ?thesis
      by (simp add: joinSession_refused[OF Some] join_failed_def toast_error_def)
  next
    case (admitted s)
    then show ?thesis
      by (simp add: joinSession_admitted(1)[OF Some] join_state_def)
  qed
qed

lemma joinSession_count:
  assumes "user (app w) = Some uid"
    and "length (filter (\<lambda>p. part_session_id p = sid \<and> part_user_id p = uid)
           (tbl_session_participants (db w))) \<le> 1"
  shows "length (filter (\<lambda>p. part_session_id p = sid \<and> part_user_id p = uid)
           (tbl_session_participants (db (joinSession e sid w)))) \<le> 1"
proof (cases rule: join_decision_cases[of e "db w" sid uid])
  case (refused msg)
  then show ?thesis
    using assms(2)
    by (simp add: joinSession_refused[OF assms(1)] join_failed_def toast_error_def)
next
  case (admitted s)
  then show ?thesis
    using join_store_count[OF assms(2)] by (simp add: joinSession_admitted(2)[OF assms(1)])
qed

lemma participant_check_after_upsert:
  assumes "participant_check e d sid uid \<noteq> None"
  shows "participant_check (e\<lparr>new_id := i, now := t\<rparr>) (upsert_participant e sid uid d) sid uid
           \<noteq> None"
proof -
  let ?P = "\<lambda>p. part_session_id p = sid \<and> part_user_id p = uid"
  from assms have ok: "participant_check_error e = None"
    by (auto simp: participant_check_def split: option.splits)
  with assms obtain p where p: "filter ?P (tbl_session_participants d) = [p]"
    by (auto simp: participant_check_def single_row_def split: option.splits list.splits)
  then have "\<exists>q. filter ?P (tbl_session_participants (upsert_participant e sid uid d)) = [q]"
    unfolding upsert_participant_rows by (simp split: option.splits)
  with ok show ?thesis
    by (auto simp: participant_check_def single_row_def)
qed

lemma fetch_session_env:
  "fetch_session (e\<lparr>new_id := i, now := t\<rparr>) d sid = fetch_session e d sid"
  by (simp add: fetch_session_def)

lemma participant_check_env:
  "participant_check (e\<lparr>new_id := i, now := t\<rparr>) d sid uid = participant_check e d sid uid"
  by (simp add: participant_check_def)

lemma fetch_session_sessions:
  "tbl_sessions d' = tbl_sessions d \<Longrightarrow> fetch_session e d' sid = fetch_session e d sid"
  by (simp add: fetch_session_def split: option.splits)

lemma join_decision_again:
  assumes "join_decision e d sid uid = Inr s"
  shows "join_decision (e\<lparr>new_id := i, now := t\<rparr>) (join_store e sid uid s d) sid uid = Inr s"
proof -
  note d = join_decision_admitted[OF assms]
  have ts: "tbl_sessions (join_store e sid uid s d) = tbl_sessions d"
    by (simp add: join_store_def)
  have f: "fetch_session (e\<lparr>new_id := i, now := t\<rparr>) (join_store e sid uid s d) sid =
      (Some s, False)"
    unfolding fetch_session_env fetch_session_sessions[OF ts] by (rule d(1))
  from d(2) consider (own) "owner_id s = uid" | (pub) "is_public s"
    | (mem) "owner_id s \<noteq> uid" "participant_check e d sid uid \<noteq> None"
    by blast
  then show ?thesis
  proof cases
    case own
    with f show ?thesis by (simp add: join_decision_def)
  next
    case pub
    with f show ?thesis by (simp add: join_decision_def)
  next
    case mem
    from participant_check_after_upsert[OF mem(2), where i = i and t = t] mem(1) f
    show ?thesis by (simp add: join_decision_def join_store_def)
  qed
qed

lemma join_store_again:
  "join_store (e\<lparr>new_id := i, now := t\<rparr>) sid uid s (join_store e sid uid s d) =
   join_store e sid uid s d"
  by (simp add: join_store_def upsert_participant_idempotent)

lemma join_state_again:
  "join_state (e\<lparr>new_id := i, now := t\<rparr>) sid s d (join_state e sid s d a) =
   join_state e sid s d a"
  by (simp add: join_state_def load_messages_def load_code_files_def load_participants_def)

lemma join_decision_same_store:
  "join_decision (e\<lparr>new_id := i, now := t\<rparr>) d sid uid = join_decision e d sid uid"
  unfolding join_decision_def fetch_session_env participant_check_env by (rule refl)

text \<open>
  C3.  A signed-in user joins a session and then joins it again, the store
  answering the second time as it did the first (the same requests fail) and
  its participant table holding at most one row for the pair to start with.
  Both joins leave the same SessionView and the same store, so the second join
  writes nothing; and after the two joins, whatever the store answered, the
  table still holds at most one row for the pair.
\<close>

theorem joinSession_idempotent:
  fixes e e' :: env and w :: world and sid :: uuid
  defines "w1 \<equiv> joinSession e sid w"
  assumes "user (app w) = Some uid"
    and "length (filter (\<lambda>p. part_session_id p = sid \<and> part_user_id p = uid)
           (tbl_session_participants (db w))) \<le> 1"
  shows "session_view (joinSession (e\<lparr>new_id := i, now := t\<rparr>) sid w1) = session_view w1 \<and>
         db (joinSession (e\<lparr>new_id := i, now := t\<rparr>) sid w1) = db w1 \<and>
         length (filter (\<lambda>p. part_session_id p = sid \<and> part_user_id p = uid)
           (tbl_session_participants (db (joinSession e' sid w1)))) \<le> 1"
proof -
  let ?e2 = "e\<lparr>new_id := i, now := t\<rparr>"
  have u1: "user (app w1) = Some uid"
    unfolding w1_def using assms(2) by simp
  have c1: "length (filter (\<lambda>p. part_session_id p = sid \<and> part_user_id p = uid)
      (tbl_session_participants (db w1))) \<le> 1"
    unfolding w1_def by (rule joinSession_count[OF assms(2,3)])
  have count: "length (filter (\<lambda>p. part_session_id p = sid \<and> part_user_id p = uid)
      (tbl_session_participants (db (joinSession e' sid w1)))) \<le> 1"
    by (rule joinSession_count[OF u1 c1])
  have same: "app (joinSession ?e2 sid w1) = app w1 \<and> db (joinSession ?e2 sid w1) = db w1"
  proof (cases rule: join_decision_cases[of e "db w" sid uid])
    case (refused msg)
    have w1: "w1 = join_failed msg (w\<lparr>app := (app w)\<lparr>isLoading := True, error := None\<rparr>\<rparr>)"
      unfolding w1_def by (rule joinSession_refused[OF assms(2) refused])
    then have d1: "db w1 = db w"
      by (simp add: join_failed_def toast_error_def)
    have "join_decision ?e2 (db w1) sid uid = Inl msg"
      unfolding d1 join_decision_same_store by (rule refused)
    from joinSession_refused[OF u1 this] show ?thesis
      by (simp add: w1 join_failed_def toast_error_def)
  next
    case (admitted s)
    note j1 = joinSession_admitted[OF assms(2) admitted, folded w1_def]
    have "join_decision ?e2 (db w1) sid uid = Inr s"
      unfolding j1(2) by (rule join_decision_again[OF admitted])
    note j2 = joinSession_admitted[OF u1 this]
    show ?thesis
      unfolding j2(1) j2(2) j1(1) j1(2) join_store_again join_state_again by simp
  qed
  then show ?thesis
    using count by (simp add: session_view_def)
qed

theorem joinSession_idempotent_witness:
  "user (app (signed_in ''u1'' db0)) = Some ''u1'' \<and>
   length (filter (\<lambda>p. part_session_id p = ''C'' \<and> part_user_id p = ''u1'')
     (tbl_session_participants (db (signed_in ''u1'' db0)))) \<le> 1 \<and>
   session_view (joinSession (env0\<lparr>new_id := ''n7'', now := 200\<rparr>) ''C''
                   (joinSession env0 ''C'' (signed_in ''u1'' db0))) =
     session_view (joinSession env0 ''C'' (signed_in ''u1'' db0)) \<and>
   map part_id (filter (\<lambda>p. part_session_id p = ''C'' \<and> part_user_id p = ''u1'')
     (tbl_session_participants
        (db (joinSession (env0\<lparr>new_id := ''n7'', now := 200\<rparr>) ''C''
               (joinSession env0 ''C'' (signed_in ''u1'' db0)))))) = [''n1'']"
proof -
  let ?w = "signed_in ''u1'' db0"
  have u: "user (app ?w) = Some ''u1''" by (simp add: signed_in_def)
  have c: "length (filter (\<lambda>p. part_session_id p = ''C'' \<and> part_user_id p = ''u1'')
     (tbl_session_participants (db ?w))) \<le> 1"
    by (simp add: signed_in_def initial_world_def db0_def partA1_def partB1_def)
  note t = joinSession_idempotent[OF u c, where e = env0 and i = "''n7''" and t = 200]
  have "join_decision env0 (db ?w) ''C'' ''u1'' = Inr sessC"
    by (simp add: join_decision_def fetch_session_def single_row_def env0_def signed_in_def
        initial_world_def db0_def sessA_def sessB_def sessC_def)
  from joinSession_admitted(2)[OF u this]
  have "map part_id (filter (\<lambda>p. part_session_id p = ''C'' \<and> part_user_id p = ''u1'')
     (tbl_session_participants (db (joinSession env0 ''C'' ?w)))) = [''n1'']"
    by (simp add: join_store_def upsert_participant_def env0_def signed_in_def
        initial_world_def db0_def sessC_def partA1_def partB1_def)
  with t u c show ?thesis by simp
qed

section \<open>Channel exclusivity\<close>

lemma fold_remove1_prefix: "fold remove1 xs (xs @ ys) = ys"
  by (induction xs) simp_all

lemma fold_remove1_self: "fold remove1 xs xs = []"
  using fold_remove1_prefix[of xs "[]"] by simp

lemma cleanupSubscriptions_tracked:
  assumes "channels_tracked w"
  shows "live (cleanupSubscriptions w) = []"
    and "channels_tracked (cleanupSubscriptions w)"
  using assms
  by (simp_all add: channels_tracked_def cleanupSubscriptions_def fold_remove1_self
      split: option.splits)

lemma channels_tracked_frame:
  assumes "live w' = live w" "window_subs w' = window_subs w"
  shows "channels_tracked w' = channels_tracked w"
  using assms by (simp add: channels_tracked_def)

lemma channels_scoped_frame:
  assumes "live w' = live w" "currentSession (app w') = currentSession (app w)"
  shows "channels_scoped w' = channels_scoped w"
  using assms by (simp add: channels_scoped_def)

lemma setupRealtimeSubscriptions_invariant:
  assumes "channels_tracked w" "channels_scoped w"
  shows "channels_tracked (setupRealtimeSubscriptions w) \<and>
         channels_scoped (setupRealtimeSubscriptions w)"
proof (cases "currentSession (app w)")
  case None
  with assms show ?thesis by (simp add: setupRealtimeSubscriptions_def)
next
  case (Some s)
  show ?thesis
  proof (cases "user (app w)")
    case None
    with Some assms show ?thesis by (simp add: setupRealtimeSubscriptions_def)
  next
    case (Some uid)
    note ch = setupRealtimeSubscriptions_channels[OF \<open>currentSession (app w) = Some s\<close> Some]
    show ?thesis
      using ch cleanupSubscriptions_tracked(1)[OF assms(1)] \<open>currentSession (app w) = Some s\<close>
      by (simp add: channels_tracked_def channels_scoped_def)
  qed
qed

lemma deliver_currentSession [simp]:
  "currentSession (deliver c ev a) = currentSession a"
  by (cases c; cases ev)
     (simp_all add: on_new_message_def on_new_file_def on_file_update_def)

lemma fold_deliver_currentSession [simp]:
  "currentSession (fold (\<lambda>c. deliver c ev) cs a) = currentSession a"
  by (induction cs arbitrary: a) simp_all

lemma notify_frame [simp]:
  "live (notify ev w) = live w"
  "window_subs (notify ev w) = window_subs w"
  "currentSession (app (notify ev w)) = currentSession (app w)"
  by (simp_all add: notify_def)

lemma sendMessage_frame [simp]:
  "window_subs (sendMessage e content type w) = window_subs w"
  "currentSession (app (sendMessage e content type w)) = currentSession (app w)"
  "user (app (sendMessage e content type w)) = user (app w)"
  by (simp_all add: sendMessage_def toast_error_def Let_def split: option.splits)

lemma loadSessions_frame [simp]:
  "live (loadSessions e w) = live w"
  "window_subs (loadSessions e w) = window_subs w"
  "currentSession (app (loadSessions e w)) = currentSession (app w)"
  by (simp_all add: loadSessions_def load_failed_def toast_error_def Let_def
      split: option.splits)

lemma generateMockCodeAction_frame [simp]:
  "live (generateMockCodeAction e prompt w) = live w"
  "window_subs (generateMockCodeAction e prompt w) = window_subs w"
  "currentSession (app (generateMockCodeAction e prompt w)) = currentSession (app w)"
  by (simp_all add: generateMockCodeAction_def toast_error_def toast_success_def Let_def
      sendMessage_live split: option.splits)

lemma generateCode_frame [simp]:
  "live (generateCode e prompt w) = live w"
  "window_subs (generateCode e prompt w) = window_subs w"
  "currentSession (app (generateCode e prompt w)) = currentSession (app w)"
  by (simp_all add: generateCode_def toast_error_def toast_success_def Let_def
      split: option.splits sum.splits)

lemma createSession_frame [simp]:
  "live (createSession e name descr lng w) = live w"
  "window_subs (createSession e name descr lng w) = window_subs w"
  "currentSession (app (createSession e name descr lng w)) = currentSession (app w)"
  by (simp_all add: createSession_def toast_error_def toast_success_def Let_def
      split: option.splits)

lemma updateCodeFile_frame:
  assumes "updateCodeFile e fileId content w = Inr w'"
  shows "live w' = live w" "window_subs w' = window_subs w"
    "currentSession (app w') = currentSession (app w)"
  using assms by (auto simp: updateCodeFile_def split: option.splits)

lemma finish_join_channels:
  "app (finish_join s msgs files participants w) =
     (app w)\<lparr>currentSession := Some s, messages := msgs, codeFiles := files,
             sessionParticipants := participants, isLoading := False, error := None\<rparr>"
  "db (finish_join s msgs files participants w) = db w"
  "toasts (finish_join s msgs files participants w) =
     toasts w @ [ToastSuccess (''Joined session: '' @ sess_name s)]"
  "live (finish_join s msgs files participants w) =
     (case user (app w) of
        None \<Rightarrow> live (cleanupSubscriptions w)
      | Some uid \<Rightarrow>
          live (cleanupSubscriptions w) @
          [MessagesChannel (sess_id s) uid, FilesChannel (sess_id s),
           FileUpdatesChannel (sess_id s)])"
  "window_subs (finish_join s msgs files participants w) =
     (case user (app w) of
        None \<Rightarrow> window_subs (cleanupSubscriptions w)
      | Some uid \<Rightarrow>
          Some [MessagesChannel (sess_id s) uid, FilesChannel (sess_id s),
                FileUpdatesChannel (sess_id s)])"
  by (simp_all add: finish_join_def Let_def toast_success_def setupRealtimeSubscriptions_def
      cleanupSubscriptions_app_update split: option.splits)

lemma finish_join_invariant:
  assumes "channels_tracked w"
  shows "channels_tracked (finish_join s msgs files participants w) \<and>
         channels_scoped (finish_join s msgs files participants w)"
  using cleanupSubscriptions_tracked[OF assms]
  by (simp add: channels_tracked_def channels_scoped_def finish_join_channels
      split: option.splits)

lemma join_decision_session_id:
  assumes "join_decision e d sid uid = Inr s"
  shows "sess_id s = sid"
proof -
  from join_decision_admitted(1)[OF assms]
  have "single_row (filter (\<lambda>s. sess_id s = sid) (tbl_sessions d)) = Some s"
    by (simp add: fetch_session_def split: option.splits)
  then have "filter (\<lambda>s. sess_id s = sid) (tbl_sessions d) = [s]"
    by (simp add: single_row_def split: list.splits)
  then have "s \<in> set (filter (\<lambda>s. sess_id s = sid) (tbl_sessions d))"
    by simp
  then show ?thesis by simp
qed

lemma joinSession_invariant:
  assumes "channels_tracked w" "channels_scoped w"
  shows "channels_tracked (joinSession e sid w) \<and> channels_scoped (joinSession e sid w)"
proof (cases "user (app w)")
  case None
  with assms show ?thesis
    by (simp add: joinSession_signed_out toast_error_def channels_tracked_def channels_scoped_def)
next
  case (Some uid)
  show ?thesis
  proof (cases rule: join_decision_cases[of e "db w" sid uid])
    case (refused msg)
    with assms show ?thesis
      by (simp add: joinSession_refused[OF Some] join_failed_def toast_error_def
          channels_tracked_def channels_scoped_def)
  next
    case (admitted s)
    note j = joinSession_admitted[OF Some admitted]
    show ?thesis
      using j(1,3,4) cleanupSubscriptions_tracked(1)[OF assms(1)]
      by (simp add: channels_tracked_def channels_scoped_def join_state_def)
  qed
qed

lemma step_invariant:
  assumes "channels_tracked w \<and> channels_scoped w"
  shows "channels_tracked (step a w) \<and> channels_scoped (step a w)"
proof (cases a)
  case (SetUser u)
  with assms show ?thesis by (simp add: channels_tracked_def channels_scoped_def)
next
  case (LoadSessions e)
  with assms show ?thesis by (simp add: channels_tracked_def channels_scoped_def)
next
  case (CreateSession e name descr lng)
  with assms show ?thesis by (simp add: channels_tracked_def channels_scoped_def)
next
  case (JoinSession e sid)
  with assms joinSession_invariant show ?thesis by simp
next
  case (JoinCompletes s msgs files participants)
  with assms finish_join_invariant show ?thesis by simp
next
  case (UpdateCodeFile e fileId content)
  show ?thesis
  proof (cases "updateCodeFile e fileId content w")
    case (Inl err)
    with UpdateCodeFile assms show ?thesis by simp
  next
    case (Inr w')
    with UpdateCodeFile assms updateCodeFile_frame[OF Inr] show ?thesis
      by (simp add: channels_tracked_def channels_scoped_def)
  qed
next
  case (SendMessage e content type)
  with assms show ?thesis
    by (simp add: channels_tracked_def channels_scoped_def sendMessage_live)
next
  case (GenerateCode e prompt)
  with assms show ?thesis by (simp add: channels_tracked_def channels_scoped_def)
next
  case (GenerateMockCode e prompt)
  with assms show ?thesis by (simp add: channels_tracked_def channels_scoped_def)
next
  case SetupRealtimeSubscriptions
  with assms setupRealtimeSubscriptions_invariant show ?thesis by simp
next
  case CleanupSubscriptions
  with assms cleanupSubscriptions_tracked show ?thesis
    by (simp add: channels_scoped_def)
next
  case (Notify ev)
  with assms show ?thesis by (simp add: channels_tracked_def channels_scoped_def)
next
  case (StoreWritten d)
  with assms show ?thesis by (simp add: channels_tracked_def channels_scoped_def)
qed

lemma run_invariant:
  assumes "channels_tracked w \<and> channels_scoped w"
  shows "channels_tracked (run acts w) \<and> channels_scoped (run acts w)"
  using assms unfolding run_def
proof (induction acts arbitrary: w)
  case Nil
  then show ?case by simp
next
  case (Cons a acts)
  from step_invariant[OF Cons.prems] have "channels_tracked (step a w) \<and> channels_scoped (step a w)" .
  from Cons.IH[OF this] show ?case by simp
qed

lemma initial_invariant:
  "channels_tracked (initial_world d) \<and> channels_scoped (initial_world d)"
  by (simp add: channels_tracked_def channels_scoped_def initial_world_def)

lemma deliver_other_session:
  "channel_session c \<noteq> event_session ev \<Longrightarrow> deliver c ev a = a"
  by (cases c; cases ev) auto

lemma fold_deliver_other_session:
  assumes "\<forall>c \<in> set cs. channel_session c \<noteq> event_session ev"
  shows "fold (\<lambda>c. deliver c ev) cs a = a"
  using assms by (induction cs arbitrary: a) (simp_all add: deliver_other_session)

text \<open>
  C5.  Take any state a client reaches from the initial one by store actions,
  subscription actions, arriving notifications and writes of others.  If
  joining session \<open>b\<close> succeeds there, the live channels afterwards are exactly
  the three channels of \<open>b\<close> (every earlier channel is detached) and \<open>b\<close> is the
  active session; and in every reachable state a notification tagged with a
  session other than the active one changes nothing, and without an active
  session no channel is live.
\<close>

theorem channel_exclusivity:
  fixes acts :: "action list" and d :: database
  defines "w \<equiv> run acts (initial_world d)"
  shows "(user (app w) = Some uid \<and> error (app (joinSession e b w)) = None \<longrightarrow>
            live (joinSession e b w) =
              [MessagesChannel b uid, FilesChannel b, FileUpdatesChannel b] \<and>
            map_option sess_id (currentSession (app (joinSession e b w))) = Some b) \<and>
         (currentSession (app w) = Some s \<and> event_session ev \<noteq> sess_id s \<longrightarrow>
            notify ev w = w) \<and>
         (currentSession (app w) = None \<longrightarrow> live w = [])"
proof -
  have inv: "channels_tracked w \<and> channels_scoped w"
    unfolding w_def by (rule run_invariant[OF initial_invariant])
  have switch: "live (joinSession e b w) =
      [MessagesChannel b uid, FilesChannel b, FileUpdatesChannel b] \<and>
      map_option sess_id (currentSession (app (joinSession e b w))) = Some b"
    if u: "user (app w) = Some uid" and ok: "error (app (joinSession e b w)) = None"
  proof (cases rule: join_decision_cases[of e "db w" b uid])
    case (refused msg)
    with ok show ?thesis
      by (simp add: joinSession_refused[OF u] join_failed_def toast_error_def)
  next
    case (admitted s')
    note j = joinSession_admitted[OF u admitted]
    from j(1,3) cleanupSubscriptions_tracked(1) inv join_decision_session_id[OF admitted]
    show ?thesis by (simp add: join_state_def)
  qed
  have quiet: "notify ev w = w"
    if cs: "currentSession (app w) = Some s" and other: "event_session ev \<noteq> sess_id s"
  proof -
    from inv cs other have "\<forall>c \<in> set (live w). channel_session c \<noteq> event_session ev"
      by (auto simp: channels_scoped_def)
    then show ?thesis
      by (simp add: notify_def fold_deliver_other_session)
  qed
  have none: "live w = []" if "currentSession (app w) = None"
  proof -
    from inv that have "set (live w) = {}"
      by (auto simp: channels_scoped_def)
    then show ?thesis by simp
  qed
  from switch quiet none show ?thesis by blast
qed

theorem channel_exclusivity_witness:
  "currentSession (app (run [SetUser (Some ''u1''), JoinSession env0 ''A'', JoinSession env0 ''C'']
                          (initial_world db0))) = Some sessC \<and>
   event_session (MessageInserted msgA) = ''A'' \<and>
   live (run [SetUser (Some ''u1''), JoinSession env0 ''A'', JoinSession env0 ''C'']
           (initial_world db0)) =
     [MessagesChannel ''C'' ''u1'', FilesChannel ''C'', FileUpdatesChannel ''C''] \<and>
   notify (MessageInserted msgA)
     (run [SetUser (Some ''u1''), JoinSession env0 ''A'', JoinSession env0 ''C'']
        (initial_world db0)) =
   run [SetUser (Some ''u1''), JoinSession env0 ''A'', JoinSession env0 ''C''] (initial_world db0)"
proof -
  let ?w1 = "run [SetUser (Some ''u1''), JoinSession env0 ''A''] (initial_world db0)"
  let ?w = "run [SetUser (Some ''u1''), JoinSession env0 ''A'', JoinSession env0 ''C'']
              (initial_world db0)"
  have w: "?w = joinSession env0 ''C'' ?w1"
    by (simp add: run_def)
  have u1: "user (app ?w1) = Some ''u1''"
    by (simp add: run_def initial_world_def initial_app_def)
  have db1: "tbl_sessions (db ?w1) = [sessA, sessB, sessC]"
  proof -
    have "join_decision env0 db0 ''A'' ''u1'' = Inr sessA"
      by (simp add: join_decision_def fetch_session_def single_row_def env0_def db0_def
          sessA_def sessB_def sessC_def)
    then have "db ?w1 = join_store env0 ''A'' ''u1'' sessA db0"
      using joinSession_admitted(2)[of "step (SetUser (Some ''u1'')) (initial_world db0)"
          "''u1''" env0 "''A''" sessA]
      by (simp add: run_def initial_world_def initial_app_def)
    then show ?thesis by (simp add: join_store_def db0_def)
  qed
  have "fetch_session env0 (db ?w1) ''C'' = (Some sessC, False)"
    unfolding fetch_session_def db1
    by (simp add: single_row_def env0_def sessA_def sessB_def sessC_def)
  then have dec: "join_decision env0 (db ?w1) ''C'' ''u1'' = Inr sessC"
    unfolding join_decision_def by (simp add: sessC_def)
  have cs: "currentSession (app ?w) = Some sessC"
    unfolding w joinSession_admitted(1)[OF u1 dec] by (simp add: join_state_def)
  then have ok: "error (app (joinSession env0 ''C'' ?w1)) = None"
    unfolding joinSession_admitted(1)[OF u1 dec] by (simp add: join_state_def)
  have ev: "event_session (MessageInserted msgA) = ''A''"
    by (simp add: msgA_def)
  then have other: "event_session (MessageInserted msgA) \<noteq> sess_id sessC"
    by (simp add: sessC_def)
  note t1 = channel_exclusivity[where acts = "[SetUser (Some ''u1''), JoinSession env0 ''A'']"
      and d = db0 and uid = "''u1''" and e = env0 and b = "''C''"]
  note t2 = channel_exclusivity[where
      acts = "[SetUser (Some ''u1''), JoinSession env0 ''A'', JoinSession env0 ''C'']"
      and d = db0 and s = sessC and ev = "MessageInserted msgA"]
  from t1 u1 ok have l: "live ?w =
      [MessagesChannel ''C'' ''u1'', FilesChannel ''C'', FileUpdatesChannel ''C'']"
    unfolding w by blast
  from t2 cs other have "notify (MessageInserted msgA) ?w = ?w"
    by blast
  with cs ev l show ?thesis by simp
qed

end
